theory Spec2Isabelle
  imports Main "HOL-Library.Word" "HOL-Library.AList" "HOL-Library.Multiset"
begin

section \<open>The prediction web server (\<^verbatim>\<open>src/server.py\<close>)\<close>

text \<open>
  The server keeps a class-level dictionary \<^verbatim>\<open>Context.objects\<close> from handle strings to
  objects, resolves class names of the URL against the table \<^verbatim>\<open>workflow_classes\<close>, and
  serves predictions that are computed tile by tile. The registry is modelled as a map
  that every operation takes and returns; a raised exception is the \<open>Inl\<close> branch of a sum.
\<close>

subsection \<open>Classes and exceptions\<close>

text \<open>
  The classes of \<^verbatim>\<open>datasource_classes\<close>, \<^verbatim>\<open>feature_extractor_classes\<close> and
  \<^verbatim>\<open>classifier_classes\<close> (lines 51-69). A stored object may have any other concrete class
  (\<^verbatim>\<open>DataSource.create\<close> of line 365 returns a subclass chosen by the file type): that is
  \<open>Unlisted\<close>, with the class name.
\<close>

datatype pyclass =
    DataSource | SequenceDataSource
  | FeatureExtractor | GaussianSmoothing | HessianOfGaussianEigenvalues
  | GaussianGradientMagnitude | LaplacianOfGaussian | DifferenceOfGaussians
  | StructureTensorEigenvalues
  | PixelClassifier | VigraPixelClassifier | ScikitLearnPixelClassifier
  | IlpVigraPixelClassifier | Annotation
  | Unlisted string

text \<open>
  The exceptions that the modelled code can raise. \<open>UnexpectedClass\<close> is the bare
  \<^verbatim>\<open>Exception("Unexpected class ... when deleting object with key ...")\<close> of
  \<^verbatim>\<open>Context.remove\<close>; \<open>BadRequestKeyError\<close> is what \<^verbatim>\<open>request.args[...]\<close> raises for a
  missing query parameter; \<open>LibraryError\<close> is any exception raised inside code that is not
  part of \<^verbatim>\<open>server.py\<close>.
\<close>

datatype exn =
    KeyError string
  | ModuleNotFoundError string
  | AttributeError string
  | TypeError string
  | ValueError string
  | UnexpectedClass pyclass string
  | FeatureDataMismatchException string
  | BadRequestKeyError string
  | LibraryError string

text \<open>
  What the client sees. The application registers one error handler
  (\<^verbatim>\<open>handle_feature_data_mismatch\<close>, lines 331-333: status 400); a
  \<^verbatim>\<open>BadRequestKeyError\<close> is an HTTP exception of status 400; every other exception that
  leaves a route is answered with the generic status 500. A route that returns answers 200.
\<close>

fun http_status :: "exn + 'a \<Rightarrow> nat" where
  "http_status (Inr _) = 200"
| "http_status (Inl (FeatureDataMismatchException _)) = 400"
| "http_status (Inl (BadRequestKeyError _)) = 400"
| "http_status (Inl _) = 500"

definition client_error :: "nat \<Rightarrow> bool" where
  "client_error status = (400 \<le> status \<and> status < 500)"

subsection \<open>The allow-list \<^verbatim>\<open>workflow_classes\<close> and \<^verbatim>\<open>Context.get_class_named\<close>\<close>

definition workflow_classes :: "(string \<times> pyclass) list" where
  "workflow_classes =
    [(''DataSource'', DataSource), (''SequenceDataSource'', SequenceDataSource),
     (''FeatureExtractor'', FeatureExtractor), (''GaussianSmoothing'', GaussianSmoothing),
     (''HessianOfGaussianEigenvalues'', HessianOfGaussianEigenvalues),
     (''GaussianGradientMagnitude'', GaussianGradientMagnitude),
     (''LaplacianOfGaussian'', LaplacianOfGaussian),
     (''DifferenceOfGaussians'', DifferenceOfGaussians),
     (''StructureTensorEigenvalues'', StructureTensorEigenvalues),
     (''PixelClassifier'', PixelClassifier), (''VigraPixelClassifier'', VigraPixelClassifier),
     (''ScikitLearnPixelClassifier'', ScikitLearnPixelClassifier),
     (''IlpVigraPixelClassifier'', IlpVigraPixelClassifier),
     (''Annotation'', Annotation)]"

text \<open>
  Strings are sequences of bytes (UTF-8). \<^verbatim>\<open>str.title()\<close> is a built-in of Python that
  works on Unicode text with the case tables of the interpreter; it is the parameter
  \<open>str_title\<close> below. \<^verbatim>\<open>replace("_", "")\<close> removes the underscores; in UTF-8 the byte of the
  underscore occurs in no other character.
\<close>

definition drop_underscores :: "string \<Rightarrow> string" where
  "drop_underscores s = filter (\<lambda>ch. ch \<noteq> CHR ''_'') s"

text \<open>
  The handler of the \<^verbatim>\<open>KeyError\<close> (lines 92-96) imports the debugger \<^verbatim>\<open>pydevd\<close>, calls
  \<^verbatim>\<open>settrace\<close> and prints; it has no \<^verbatim>\<open>return\<close> and no \<^verbatim>\<open>raise\<close>. Where the debugger is not
  installed the import raises; where it is, the function falls off its end and returns
  \<^verbatim>\<open>None\<close>.
\<close>

datatype debugger = NotInstalled | Attached

text \<open>What \<^verbatim>\<open>get_class_named\<close> takes from the interpreter it runs in.\<close>

record runtime =
  str_title :: "string \<Rightarrow> string"
  pydevd :: debugger

text \<open>
  Line 89: a name that is a key of the table is looked up as it is, any other name after
  \<^verbatim>\<open>name.title().replace("_", "")\<close>.
\<close>

definition normalize_name :: "runtime \<Rightarrow> string \<Rightarrow> string" where
  "normalize_name rt name =
     (if name \<in> set (map fst workflow_classes) then name
      else drop_underscores (str_title rt name))"

definition get_class_named :: "runtime \<Rightarrow> string \<Rightarrow> exn + pyclass option" where
  "get_class_named rt name =
     (case map_of workflow_classes (normalize_name rt name) of
        Some klass \<Rightarrow> Inr (Some klass)
      | None \<Rightarrow> (case pydevd rt of
                  NotInstalled \<Rightarrow> Inl (ModuleNotFoundError ''pydevd'')
                | Attached \<Rightarrow> Inr None))"

subsection \<open>The registry \<^verbatim>\<open>Context.objects\<close>\<close>

text \<open>
  Objects are opaque: \<open>'o\<close> is the type of the server's objects, and the two functions
  below are Python's \<^verbatim>\<open>obj.__class__\<close> and \<^verbatim>\<open>issubclass\<close>. The class hierarchy is declared in
  modules that \<^verbatim>\<open>server.py\<close> imports, so it is a parameter.
\<close>

record 'o classes =
  class_of :: "'o \<Rightarrow> pyclass"
  issubclass :: "pyclass \<Rightarrow> pyclass \<Rightarrow> bool"

type_synonym 'o registry = "string \<rightharpoonup> 'o"

definition isinstance :: "'o classes \<Rightarrow> 'o \<Rightarrow> pyclass \<Rightarrow> bool" where
  "isinstance cl obj klass = issubclass cl (class_of cl obj) klass"

text \<open>\<^verbatim>\<open>Context.load\<close> (lines 105-107): \<^verbatim>\<open>cls.objects[key]\<close> raises \<^verbatim>\<open>KeyError\<close> on a missing key.\<close>

definition load :: "string \<Rightarrow> 'o registry \<Rightarrow> exn + 'o" where
  "load key objects = (case objects key of None \<Rightarrow> Inl (KeyError key) | Some obj \<Rightarrow> Inr obj)"

text \<open>
  A value of the request payload: a form field, a form field that was a handle and has been
  replaced by the object it names, or the bytes of an uploaded file; and the nested
  structure that \<^verbatim>\<open>listify(unflatten(payload))\<close> builds from them.
\<close>

datatype 'o field = Text string | Pointer 'o | Blob "8 word list"

datatype 'o payload =
    Leaf "'o field"
  | Dict "(string \<times> 'o payload) list"
  | Listing "'o payload list"

text \<open>
  \<^verbatim>\<open>Context.store\<close> (lines 110-114). \<open>fresh\<close> is the text of the \<^verbatim>\<open>uuid.uuid4()\<close> that the call
  draws when no id is given. The key is the prefix \<^verbatim>\<open>pointer@\<close> followed by the formatted
  id: a string id is inserted as it is, any other value through Python's \<^verbatim>\<open>str\<close>, which is
  the parameter \<open>to_str\<close>.
\<close>

definition render_id :: "('o payload \<Rightarrow> string) \<Rightarrow> 'o payload \<Rightarrow> string" where
  "render_id to_str v = (case v of Leaf (Text s) \<Rightarrow> s | _ \<Rightarrow> to_str v)"

definition store ::
  "('o payload \<Rightarrow> string) \<Rightarrow> string \<Rightarrow> 'o payload option \<Rightarrow> 'o \<Rightarrow> 'o registry
     \<Rightarrow> string \<times> 'o registry" where
  "store to_str fresh obj_id obj objects =
     (let key = ''pointer@'' @ (case obj_id of Some v \<Rightarrow> render_id to_str v | None \<Rightarrow> fresh)
      in (key, objects(key \<mapsto> obj)))"

text \<open>
  \<^verbatim>\<open>Context.remove\<close> (lines 116-121). The lookup of line 118 comes first and raises
  \<^verbatim>\<open>KeyError\<close>; then the class test, which raises \<^verbatim>\<open>TypeError\<close> when \<^verbatim>\<open>klass\<close> is the
  \<^verbatim>\<open>None\<close> that \<^verbatim>\<open>get_class_named\<close> can return; only then the \<^verbatim>\<open>pop\<close>.
\<close>

definition remove ::
  "'o classes \<Rightarrow> pyclass option \<Rightarrow> string \<Rightarrow> 'o registry \<Rightarrow> (exn + 'o) \<times> 'o registry" where
  "remove cl klass key objects =
     (case objects key of
        None \<Rightarrow> (Inl (KeyError key), objects)
      | Some obj \<Rightarrow>
          (case klass of
             None \<Rightarrow> (Inl (TypeError ''issubclass() arg 2 must be a class''), objects)
           | Some k \<Rightarrow>
               if \<not> issubclass cl (class_of cl obj) k
               then (Inl (UnexpectedClass (class_of cl obj) key), objects)
               else (Inr obj, objects(key := None))))"

text \<open>
  \<^verbatim>\<open>Context.get_all\<close> (lines 135-137), for a class \<^verbatim>\<open>klass\<close>: the dictionary comprehension
  keeps the items whose object is an instance of the class.
\<close>

definition get_all :: "'o classes \<Rightarrow> pyclass \<Rightarrow> 'o registry \<Rightarrow> 'o registry" where
  "get_all cl klass objects =
     (\<lambda>key. case objects key of
              None \<Rightarrow> None
            | Some obj \<Rightarrow> if isinstance cl obj klass then Some obj else None)"

subsection \<open>Creating and deleting objects over HTTP\<close>

text \<open>
  \<^verbatim>\<open>Context.get_request_payload\<close> (lines 124-133): a form value that starts with
  \<^verbatim>\<open>pointer@\<close> is replaced by the object it names (\<^verbatim>\<open>KeyError\<close> when there is none), files
  are read; a later key overwrites an earlier one. \<^verbatim>\<open>listify\<close> and \<^verbatim>\<open>unflatten\<close> come from
  another module and are the parameter \<open>unflatten\<close>.
\<close>

definition startswith :: "string \<Rightarrow> string \<Rightarrow> bool" where
  "startswith s prefix = (take (length prefix) s = prefix)"

fun resolve_form ::
  "(string \<times> string) list \<Rightarrow> 'o registry \<Rightarrow> (string \<times> 'o field) list
     \<Rightarrow> exn + (string \<times> 'o field) list" where
  "resolve_form [] objects acc = Inr acc"
| "resolve_form ((k, v) # rest) objects acc =
     (if startswith v ''pointer@''
      then (case load v objects of
              Inl e \<Rightarrow> Inl e
            | Inr obj \<Rightarrow> resolve_form rest objects (AList.update k (Pointer obj) acc))
      else resolve_form rest objects (AList.update k (Text v) acc))"

fun read_files ::
  "(string \<times> 8 word list) list \<Rightarrow> (string \<times> 'o field) list \<Rightarrow> (string \<times> 'o field) list" where
  "read_files [] acc = acc"
| "read_files ((k, bytes) # rest) acc = read_files rest (AList.update k (Blob bytes) acc)"

record request =
  form :: "(string \<times> string) list"
  files :: "(string \<times> 8 word list) list"

text \<open>
  \<^verbatim>\<open>request.form\<close>, \<^verbatim>\<open>request.files\<close> and \<^verbatim>\<open>request.args\<close> can hold a key several times;
  \<^verbatim>\<open>items()\<close>, \<^verbatim>\<open>get\<close> and indexing see the first value of each key.
\<close>

definition items :: "(string \<times> 'a) list \<Rightarrow> (string \<times> 'a) list" where
  "items kvs = AList.clearjunk kvs"

definition get_request_payload ::
  "((string \<times> 'o field) list \<Rightarrow> 'o payload) \<Rightarrow> request \<Rightarrow> 'o registry \<Rightarrow> exn + 'o payload" where
  "get_request_payload unflatten req objects =
     (case resolve_form (items (form req)) objects [] of
        Inl e \<Rightarrow> Inl e
      | Inr payload \<Rightarrow> Inr (unflatten (read_files (items (files req)) payload)))"

text \<open>
  What \<^verbatim>\<open>server.py\<close> needs from the modules it imports in order to build an object:
  \<^verbatim>\<open>klass.from_json_data\<close>, \<^verbatim>\<open>obj.as_uint8().show_channels()\<close> (lines 342-343, which only
  displays the object and may raise), and the helpers above.
\<close>

record 'o builders =
  unflatten :: "(string \<times> 'o field) list \<Rightarrow> 'o payload"
  py_str :: "'o payload \<Rightarrow> string"
  from_json_data :: "pyclass \<Rightarrow> 'o payload \<Rightarrow> exn + 'o"
  show_channels :: "'o \<Rightarrow> exn option"
  interpreter :: runtime
  uuid4 :: string

text \<open>\<^verbatim>\<open>request_payload.get("id")\<close>: only a dictionary has \<^verbatim>\<open>get\<close>.\<close>

definition payload_get :: "'o payload \<Rightarrow> string \<Rightarrow> exn + 'o payload option" where
  "payload_get p k =
     (case p of
        Dict entries \<Rightarrow> Inr (map_of entries k)
      | _ \<Rightarrow> Inl (AttributeError ''get''))"

text \<open>
  \<^verbatim>\<open>Context.create\<close> (lines 98-103). The payload is decoded first; \<^verbatim>\<open>klass.from_json_data\<close>
  on the \<^verbatim>\<open>None\<close> of an unknown class name raises \<^verbatim>\<open>AttributeError\<close>.
\<close>

definition create ::
  "'o builders \<Rightarrow> pyclass option \<Rightarrow> request \<Rightarrow> 'o registry
     \<Rightarrow> (exn + 'o \<times> string) \<times> 'o registry" where
  "create b klass req objects =
     (case get_request_payload (unflatten b) req objects of
        Inl e \<Rightarrow> (Inl e, objects)
      | Inr request_payload \<Rightarrow>
          (case klass of
             None \<Rightarrow> (Inl (AttributeError ''from_json_data''), objects)
           | Some k \<Rightarrow>
               (case from_json_data b k request_payload of
                  Inl e \<Rightarrow> (Inl e, objects)
                | Inr obj \<Rightarrow>
                    (case payload_get request_payload ''id'' of
                       Inl e \<Rightarrow> (Inl e, objects)
                     | Inr obj_id \<Rightarrow>
                         (let (key, objects') = store (py_str b) (uuid4 b) obj_id obj objects
                          in (Inr (obj, key), objects'))))))"

text \<open>
  The route \<^verbatim>\<open>POST /<class_name>/\<close> (lines 336-344); the result is the body
  \<^verbatim>\<open>json.dumps(uid)\<close>, given here as the handle itself.
\<close>

definition create_object ::
  "'o classes \<Rightarrow> 'o builders \<Rightarrow> string \<Rightarrow> request \<Rightarrow> 'o registry
     \<Rightarrow> (exn + string) \<times> 'o registry" where
  "create_object cl b class_name req objects =
     (case get_class_named (interpreter b) class_name of
        Inl e \<Rightarrow> (Inl e, objects)
      | Inr klass \<Rightarrow>
          (case create b klass req objects of
             (Inl e, objects') \<Rightarrow> (Inl e, objects')
           | (Inr (obj, uid), objects') \<Rightarrow>
               if isinstance cl obj Annotation
               then (case show_channels b obj of
                       Some e \<Rightarrow> (Inl e, objects')
                     | None \<Rightarrow> (Inr uid, objects'))
               else (Inr uid, objects')))"

text \<open>
  The route \<^verbatim>\<open>DELETE /<class_name>/<object_id>\<close> (lines 325-328); the result is the id of
  the body \<^verbatim>\<open>{"id": object_id}\<close>.
\<close>

definition remove_object ::
  "'o classes \<Rightarrow> runtime \<Rightarrow> string \<Rightarrow> string \<Rightarrow> 'o registry \<Rightarrow> (exn + string) \<times> 'o registry" where
  "remove_object cl rt class_name object_id objects =
     (case get_class_named rt class_name of
        Inl e \<Rightarrow> (Inl e, objects)
      | Inr klass \<Rightarrow>
          (case remove cl klass object_id objects of
             (Inl e, objects') \<Rightarrow> (Inl e, objects')
           | (Inr obj, objects') \<Rightarrow> (Inr object_id, objects')))"

subsection \<open>Geometry\<close>

text \<open>
  Points, shapes and regions have the five axes t, c, x, y, z. The classes \<^verbatim>\<open>Point5D\<close>,
  \<^verbatim>\<open>Shape5D\<close>, \<^verbatim>\<open>Slice5D\<close>, \<^verbatim>\<open>Array5D\<close> and \<^verbatim>\<open>DataSourceSlice\<close> are imported by \<^verbatim>\<open>server.py\<close>
  (line 18) and their code is not part of it, so the geometry below follows the
  specification (sections 3 and 4.1).
\<close>

record 'a axes =
  t_ax :: 'a
  c_ax :: 'a
  x_ax :: 'a
  y_ax :: 'a
  z_ax :: 'a

type_synonym interval = "int \<times> int"

text \<open>A half-open range \<open>[start, stop)\<close>, and a region: one range on every axis.\<close>

definition in_interval :: "interval \<Rightarrow> int \<Rightarrow> bool" where
  "in_interval iv i = (fst iv \<le> i \<and> i < snd iv)"

definition contains :: "interval axes \<Rightarrow> int axes \<Rightarrow> bool" where
  "contains r p =
     (in_interval (t_ax r) (t_ax p) \<and> in_interval (c_ax r) (c_ax p) \<and>
      in_interval (x_ax r) (x_ax p) \<and> in_interval (y_ax r) (y_ax p) \<and>
      in_interval (z_ax r) (z_ax p))"

definition extent :: "interval \<Rightarrow> int" where
  "extent iv = snd iv - fst iv"

text \<open>
  Modelled from the spec: \<^verbatim>\<open>Slice5D.defined\<close> is missing. An unbounded axis becomes
  \<open>[0, subject_extent)\<close>; a bound axis is clamped to lie within the subject, and after
  resolution \<open>start \<le> stop\<close> (an empty range is a valid result).
\<close>

definition resolve_axis :: "int \<Rightarrow> interval option \<Rightarrow> interval" where
  "resolve_axis ext slc =
     (case slc of
        None \<Rightarrow> (0, ext)
      | Some (start, stop) \<Rightarrow>
          (let s = min (max start 0) ext; e = min (max stop 0) ext in (s, max s e)))"

definition resolve :: "interval option axes \<Rightarrow> int axes \<Rightarrow> interval axes" where
  "resolve slc subject_shape =
     \<lparr>t_ax = resolve_axis (t_ax subject_shape) (t_ax slc),
      c_ax = resolve_axis (c_ax subject_shape) (c_ax slc),
      x_ax = resolve_axis (x_ax subject_shape) (x_ax slc),
      y_ax = resolve_axis (y_ax subject_shape) (y_ax slc),
      z_ax = resolve_axis (z_ax subject_shape) (z_ax slc)\<rparr>"

text \<open>
  Modelled from the spec: \<^verbatim>\<open>get_tiles\<close> is missing. Every axis is walked in strides of the
  tile shape from the region's own start, and the last tile of an axis is clamped to the
  region's stop. A tile shape that is not positive is outside the specification (it speaks
  of valid tile shapes); the walk yields no tile then.
\<close>

function walk :: "int \<Rightarrow> int \<Rightarrow> int \<Rightarrow> interval list" where
  "walk start stop stride =
     (if start < stop \<and> 0 < stride
      then (start, min (start + stride) stop) # walk (start + stride) stop stride
      else [])"
  by pat_completeness auto
termination
  by (relation "measure (\<lambda>(start, stop, stride). nat (stop - start))") auto

declare walk.simps [simp del]

definition tile_grid :: "interval axes \<Rightarrow> int axes \<Rightarrow> interval axes list" where
  "tile_grid r tile =
     concat (map (\<lambda>t. concat (map (\<lambda>c. concat (map (\<lambda>x. concat (map (\<lambda>y. map (\<lambda>z.
         \<lparr>t_ax = t, c_ax = c, x_ax = x, y_ax = y, z_ax = z\<rparr>)
       (walk (fst (z_ax r)) (snd (z_ax r)) (z_ax tile)))
       (walk (fst (y_ax r)) (snd (y_ax r)) (y_ax tile))))
       (walk (fst (x_ax r)) (snd (x_ax r)) (x_ax tile))))
       (walk (fst (c_ax r)) (snd (c_ax r)) (c_ax tile))))
       (walk (fst (t_ax r)) (snd (t_ax r)) (t_ax tile)))"

text \<open>
  An array: the region it covers and the value of every cell. \<open>array_writes\<close> is
  bookkeeping of the model and no part of the source's arrays: it counts how often each
  cell has been set since the array was allocated.
\<close>

record 'v Array5D =
  array_roi :: "interval axes"
  array_data :: "int axes \<Rightarrow> 'v"
  array_writes :: "int axes \<Rightarrow> nat"

text \<open>
  Modelled from the spec: \<^verbatim>\<open>Array5D.set\<close> is missing. With \<^verbatim>\<open>autocrop\<close> the written tile is
  intersected with the bounds of the buffer before it is written, and an overhang does not
  raise.
\<close>

definition set_autocrop :: "'v Array5D \<Rightarrow> 'v Array5D \<Rightarrow> 'v Array5D" where
  "set_autocrop buffer v =
     buffer\<lparr>array_data :=
       (\<lambda>p. if contains (array_roi v) p \<and> contains (array_roi buffer) p
            then array_data v p else array_data buffer p),
       array_writes :=
       (\<lambda>p. if contains (array_roi v) p \<and> contains (array_roi buffer) p
            then Suc (array_writes buffer p) else array_writes buffer p)\<rparr>"

subsection \<open>The tiled prediction pipeline: \<^verbatim>\<open>do_predictions\<close>\<close>

text \<open>
  What \<^verbatim>\<open>server.py\<close> calls on a data source and on a classifier. Each call on an object
  of the wrong kind raises, so each has a result in \<open>exn + _\<close>. \<open>datasource_roi\<close> is the
  attribute \<^verbatim>\<open>datasource.roi\<close>. \<open>get_expected_roi\<close> is the lookup of the attribute
  \<^verbatim>\<open>classifier.get_expected_roi\<close>, which raises on an object that has none and gives the
  method otherwise; the method is called afterwards. \<open>classifier_predict\<close> is
  \<^verbatim>\<open>classifier.predict(tile)\<close>, where the tile is a region of a data source; it
  retrieves the data and predicts. \<open>blank\<close> is the content of a freshly allocated buffer.
  \<open>as_uint8\<close> and \<open>as_uint8_normalized\<close> convert one value to eight bits
  (\<^verbatim>\<open>as_uint8()\<close> and \<^verbatim>\<open>as_uint8(normalized=True)\<close>); \<open>py_int\<close> is Python's \<^verbatim>\<open>int\<close> on a
  string, \<open>None\<close> where it raises \<^verbatim>\<open>ValueError\<close>; \<open>png\<close> encodes rows of pixels;
  \<open>json_quote\<close> is the JSON encoding of a Python string, quotes included.
\<close>

record ('o, 'v) capabilities =
  shape :: "'o \<Rightarrow> exn + int axes"
  tile_shape :: "'o \<Rightarrow> exn + int axes"
  datasource_roi :: "'o \<Rightarrow> exn + interval axes"
  get_expected_roi :: "'o \<Rightarrow> exn + (interval axes \<Rightarrow> exn + interval axes)"
  classifier_predict :: "'o \<Rightarrow> 'o \<Rightarrow> interval axes \<Rightarrow> exn + 'v Array5D"
  blank :: 'v
  as_uint8 :: "'v \<Rightarrow> 8 word"
  as_uint8_normalized :: "'v \<Rightarrow> 8 word"
  py_int :: "string \<Rightarrow> int option"
  png :: "8 word list list \<Rightarrow> 8 word list"
  json_quote :: "string \<Rightarrow> string"

text \<open>The call \<^verbatim>\<open>classifier.get_expected_roi(r)\<close>: the lookup, then the call.\<close>

definition expected_roi ::
  "('o, 'v) capabilities \<Rightarrow> 'o \<Rightarrow> interval axes \<Rightarrow> exn + interval axes" where
  "expected_roi cap classifier r =
     (case get_expected_roi cap classifier of
        Inl e \<Rightarrow> Inl e
      | Inr method \<Rightarrow> method r)"

text \<open>Line 143: \<^verbatim>\<open>DataSourceSlice(datasource, **roi.to_dict()).defined()\<close>.\<close>

definition defined ::
  "('o, 'v) capabilities \<Rightarrow> 'o \<Rightarrow> interval option axes \<Rightarrow> exn + interval axes" where
  "defined cap datasource slc =
     (case shape cap datasource of
        Inl e \<Rightarrow> Inl e
      | Inr sh \<Rightarrow> Inr (resolve slc sh))"

text \<open>
  Modelled from the spec: \<^verbatim>\<open>allocate_predictions\<close> is missing. The buffer is allocated to
  the region that the classifier expects for the request (\<^verbatim>\<open>get_expected_roi\<close>).
\<close>

definition allocate_predictions ::
  "('o, 'v) capabilities \<Rightarrow> 'o \<Rightarrow> interval axes \<Rightarrow> exn + 'v Array5D" where
  "allocate_predictions cap classifier r =
     (case expected_roi cap classifier r of
        Inl e \<Rightarrow> Inl e
      | Inr expected \<Rightarrow>
          Inr \<lparr>array_roi = expected, array_data = (\<lambda>p. blank cap), array_writes = (\<lambda>p. 0)\<rparr>)"

definition get_tiles ::
  "('o, 'v) capabilities \<Rightarrow> 'o \<Rightarrow> interval axes \<Rightarrow> exn + interval axes list" where
  "get_tiles cap datasource r =
     (case tile_shape cap datasource of
        Inl e \<Rightarrow> Inl e
      | Inr tile \<Rightarrow> Inr (tile_grid r tile))"

text \<open>The task \<^verbatim>\<open>predict_tile\<close> of lines 149-151.\<close>

definition predict_tile ::
  "('o, 'v) capabilities \<Rightarrow> 'o \<Rightarrow> 'o \<Rightarrow> interval axes \<Rightarrow> 'v Array5D \<Rightarrow> exn + 'v Array5D" where
  "predict_tile cap classifier datasource tile predictions =
     (case classifier_predict cap classifier datasource tile of
        Inl e \<Rightarrow> Inl e
      | Inr tile_prediction \<Rightarrow> Inr (set_autocrop predictions tile_prediction))"

text \<open>
  Lines 146-153. Every tile is submitted to the executor, and leaving the \<^verbatim>\<open>with\<close> block
  waits until every task has ended. \<^verbatim>\<open>executor.submit\<close> returns a future that holds the
  result or the exception of its task; the loop drops the future, so an exception of a
  task reaches nobody and the buffer stays as it was before that task. The tasks run in
  an order that the pool chooses: \<open>run_tasks\<close> takes the tiles in the order in which their
  tasks run, each task as one step.
\<close>

fun run_tasks ::
  "('o, 'v) capabilities \<Rightarrow> 'o \<Rightarrow> 'o \<Rightarrow> interval axes list \<Rightarrow> 'v Array5D \<Rightarrow> 'v Array5D" where
  "run_tasks cap classifier datasource [] predictions = predictions"
| "run_tasks cap classifier datasource (tile # rest) predictions =
     run_tasks cap classifier datasource rest
       (case predict_tile cap classifier datasource tile predictions of
          Inl e \<Rightarrow> predictions
        | Inr written \<Rightarrow> written)"

text \<open>
  \<^verbatim>\<open>do_predictions\<close> (lines 140-154). \<open>schedule\<close> is the order in which the pool runs the
  submitted tasks.
\<close>

definition do_predictions ::
  "('o, 'v) capabilities \<Rightarrow> (interval axes list \<Rightarrow> interval axes list) \<Rightarrow> interval option axes
     \<Rightarrow> string \<Rightarrow> string \<Rightarrow> 'o registry \<Rightarrow> exn + 'v Array5D" where
  "do_predictions cap schedule slc classifier_id datasource_id objects =
     (case load classifier_id objects of
        Inl e \<Rightarrow> Inl e
      | Inr classifier \<Rightarrow>
     (case load datasource_id objects of
        Inl e \<Rightarrow> Inl e
      | Inr datasource \<Rightarrow>
     (case defined cap datasource slc of
        Inl e \<Rightarrow> Inl e
      | Inr backed_roi \<Rightarrow>
     (case allocate_predictions cap classifier backed_roi of
        Inl e \<Rightarrow> Inl e
      | Inr predictions \<Rightarrow>
     (case get_tiles cap datasource backed_roi of
        Inl e \<Rightarrow> Inl e
      | Inr tiles \<Rightarrow>
          Inr (run_tasks cap classifier datasource (schedule tiles) predictions))))))"

text \<open>
  The regions that the tasks of a run write, in the order of the run: a task whose
  prediction raised writes nothing, any other writes its prediction cropped to the buffer.
\<close>

definition intersection :: "interval axes \<Rightarrow> interval axes \<Rightarrow> int axes \<Rightarrow> bool" where
  "intersection a b p = (contains a p \<and> contains b p)"

fun written_regions ::
  "('o, 'v) capabilities \<Rightarrow> 'o \<Rightarrow> 'o \<Rightarrow> interval axes list \<Rightarrow> interval axes
     \<Rightarrow> (int axes \<Rightarrow> bool) list" where
  "written_regions cap classifier datasource [] buffer_roi = []"
| "written_regions cap classifier datasource (tile # rest) buffer_roi =
     (case classifier_predict cap classifier datasource tile of
        Inl e \<Rightarrow> written_regions cap classifier datasource rest buffer_roi
      | Inr tile_prediction \<Rightarrow>
          intersection (array_roi tile_prediction) buffer_roi
            # written_regions cap classifier datasource rest buffer_roi)"

definition times_written ::
  "('o, 'v) capabilities \<Rightarrow> 'o \<Rightarrow> 'o \<Rightarrow> interval axes list \<Rightarrow> interval axes \<Rightarrow> int axes \<Rightarrow> nat" where
  "times_written cap classifier datasource tiles buffer_roi p =
     length (filter (\<lambda>region. region p) (written_regions cap classifier datasource tiles buffer_roi))"

subsection \<open>The wire adapters\<close>

text \<open>
  Modelled from the spec: \<^verbatim>\<open>Array5D.raw\<close> and \<^verbatim>\<open>tobytes("F")\<close> are missing. The raw chunk is
  the eight-bit buffer over its whole spatial and channel extent as flat bytes in
  \<open>[x, y, z, channel]\<close> order, x varying fastest. The layout has no time axis; the bytes
  are taken at the time point at which the buffer starts.
\<close>

definition range_list :: "interval \<Rightarrow> int list" where
  "range_list iv = map (\<lambda>i. fst iv + int i) [0..<nat (extent iv)]"

definition map_array :: "('v \<Rightarrow> 'w) \<Rightarrow> 'v Array5D \<Rightarrow> 'w Array5D" where
  "map_array f a =
     \<lparr>array_roi = array_roi a, array_data = (\<lambda>p. f (array_data a p)),
      array_writes = array_writes a\<rparr>"

definition raw_xyzc_tobytes_F :: "8 word Array5D \<Rightarrow> 8 word list" where
  "raw_xyzc_tobytes_F a =
     concat (map (\<lambda>c. concat (map (\<lambda>z. concat (map (\<lambda>y. map (\<lambda>x.
         array_data a \<lparr>t_ax = fst (t_ax (array_roi a)), c_ax = c, x_ax = x, y_ax = y, z_ax = z\<rparr>)
       (range_list (x_ax (array_roi a))))
       (range_list (y_ax (array_roi a)))))
       (range_list (z_ax (array_roi a)))))
       (range_list (c_ax (array_roi a))))"

text \<open>
  The route \<^verbatim>\<open>/predictions/<classifier_id>/<datasource_id>/data/...\<close> (lines 181-194); the
  result is the body of the response.
\<close>

definition ng_predict ::
  "('o, 'v) capabilities \<Rightarrow> (interval axes list \<Rightarrow> interval axes list) \<Rightarrow> string \<Rightarrow> string
     \<Rightarrow> int \<Rightarrow> int \<Rightarrow> int \<Rightarrow> int \<Rightarrow> int \<Rightarrow> int \<Rightarrow> 'o registry \<Rightarrow> exn + 8 word list" where
  "ng_predict cap schedule classifier_id datasource_id xBegin xEnd yBegin yEnd zBegin zEnd objects =
     (let requested_roi =
            \<lparr>t_ax = None, c_ax = None, x_ax = Some (xBegin, xEnd),
             y_ax = Some (yBegin, yEnd), z_ax = Some (zBegin, zEnd)\<rparr>
      in case do_predictions cap schedule requested_roi classifier_id datasource_id objects of
           Inl e \<Rightarrow> Inl e
         | Inr predictions \<Rightarrow> Inr (raw_xyzc_tobytes_F (map_array (as_uint8 cap) predictions)))"

text \<open>
  The loop of lines 159-163. \<^verbatim>\<open>axis in "tcxyz"\<close> is Python's substring test on strings;
  \<^verbatim>\<open>v.split("_")\<close> cuts at every underscore; a part that is no integer, or a number of
  parts other than two, raises \<^verbatim>\<open>ValueError\<close>.
\<close>

fun is_substring :: "string \<Rightarrow> string \<Rightarrow> bool" where
  "is_substring s [] = (s = [])"
| "is_substring s (ch # cs) = (startswith (ch # cs) s \<or> is_substring s cs)"

fun split_on :: "char \<Rightarrow> string \<Rightarrow> string list" where
  "split_on sep [] = [[]]"
| "split_on sep (ch # cs) =
     (if ch = sep then [] # split_on sep cs
      else (case split_on sep cs of
              [] \<Rightarrow> [[ch]]
            | part # parts \<Rightarrow> (ch # part) # parts))"

fun roi_params_loop ::
  "(string \<Rightarrow> int option) \<Rightarrow> (string \<times> string) list \<Rightarrow> (string \<times> interval) list
     \<Rightarrow> exn + (string \<times> interval) list" where
  "roi_params_loop to_int [] roi_params = Inr roi_params"
| "roi_params_loop to_int ((axis, v) # rest) roi_params =
     (if is_substring axis ''tcxyz''
      then (case map to_int (split_on CHR ''_'' v) of
              [Some start, Some stop] \<Rightarrow>
                roi_params_loop to_int rest (AList.update axis (start, stop) roi_params)
            | _ \<Rightarrow> Inl (ValueError v))
      else roi_params_loop to_int rest roi_params)"

text \<open>
  \<^verbatim>\<open>Slice5D(**roi_params)\<close>: a keyword other than the five axes raises \<^verbatim>\<open>TypeError\<close>; an axis
  that is not given is unbounded.
\<close>

definition Slice5D :: "(string \<times> interval) list \<Rightarrow> exn + interval option axes" where
  "Slice5D roi_params =
     (if \<exists>k \<in> set (map fst roi_params). k \<notin> set [''t'', ''c'', ''x'', ''y'', ''z'']
      then Inl (TypeError ''unexpected keyword argument'')
      else Inr \<lparr>t_ax = map_of roi_params ''t'', c_ax = map_of roi_params ''c'',
                x_ax = map_of roi_params ''x'', y_ax = map_of roi_params ''y'',
                z_ax = map_of roi_params ''z''\<rparr>)"

text \<open>
  Modelled from the spec: \<^verbatim>\<open>Array5D.cut\<close> and \<^verbatim>\<open>raw("yx")\<close> are missing. The rendered preview
  selects one channel, converts it to eight bits and encodes the rows of the image. A
  channel that the buffer does not have cannot be selected, and an image has one time
  point and one z plane.
\<close>

definition cut_channel :: "'v Array5D \<Rightarrow> int \<Rightarrow> exn + 'v Array5D" where
  "cut_channel a channel =
     (if in_interval (c_ax (array_roi a)) channel
      then Inr (a\<lparr>array_roi := (array_roi a)\<lparr>c_ax := (channel, channel + 1)\<rparr>\<rparr>)
      else Inl (LibraryError ''cut''))"

definition raw_yx :: "8 word Array5D \<Rightarrow> exn + 8 word list list" where
  "raw_yx a =
     (if extent (t_ax (array_roi a)) \<noteq> 1 \<or> extent (c_ax (array_roi a)) \<noteq> 1
         \<or> extent (z_ax (array_roi a)) \<noteq> 1
      then Inl (LibraryError ''raw'')
      else Inr (map (\<lambda>y. map (\<lambda>x.
             array_data a \<lparr>t_ax = fst (t_ax (array_roi a)), c_ax = fst (c_ax (array_roi a)),
                           x_ax = x, y_ax = y, z_ax = fst (z_ax (array_roi a))\<rparr>)
           (range_list (x_ax (array_roi a))))
           (range_list (y_ax (array_roi a)))))"

text \<open>Lines 172-177: from the buffer and the channel to the bytes of the PNG file.\<close>

definition render_channel :: "('o, 'v) capabilities \<Rightarrow> 'v Array5D \<Rightarrow> int \<Rightarrow> exn + 8 word list" where
  "render_channel cap predictions channel =
     (case cut_channel predictions channel of
        Inl e \<Rightarrow> Inl e
      | Inr selected \<Rightarrow>
          (case raw_yx (map_array (as_uint8_normalized cap) selected) of
             Inl e \<Rightarrow> Inl e
           | Inr rows \<Rightarrow> Inr (png cap rows)))"

text \<open>Line 171: \<^verbatim>\<open>int(request.args.get("channel", 0))\<close>.\<close>

definition channel_of :: "(string \<Rightarrow> int option) \<Rightarrow> (string \<times> string) list \<Rightarrow> exn + int" where
  "channel_of to_int args =
     (case map_of args ''channel'' of
        None \<Rightarrow> Inr 0
      | Some v \<Rightarrow> (case to_int v of None \<Rightarrow> Inl (ValueError v) | Some n \<Rightarrow> Inr n))"

text \<open>
  The route \<^verbatim>\<open>GET /predict/\<close> (lines 157-177). The arguments of the call of
  \<^verbatim>\<open>do_predictions\<close> are evaluated from left to right: the region first, then the two ids.
\<close>

definition predict ::
  "('o, 'v) capabilities \<Rightarrow> (interval axes list \<Rightarrow> interval axes list)
     \<Rightarrow> (string \<times> string) list \<Rightarrow> 'o registry \<Rightarrow> exn + 8 word list" where
  "predict cap schedule args objects =
     (case roi_params_loop (py_int cap) (items args) [] of
        Inl e \<Rightarrow> Inl e
      | Inr roi_params \<Rightarrow>
     (case Slice5D roi_params of
        Inl e \<Rightarrow> Inl e
      | Inr slc \<Rightarrow>
     (case map_of args ''pixel_classifier_id'' of
        None \<Rightarrow> Inl (BadRequestKeyError ''pixel_classifier_id'')
      | Some classifier_id \<Rightarrow>
     (case map_of args ''data_source_id'' of
        None \<Rightarrow> Inl (BadRequestKeyError ''data_source_id'')
      | Some datasource_id \<Rightarrow>
     (case do_predictions cap schedule slc classifier_id datasource_id objects of
        Inl e \<Rightarrow> Inl e
      | Inr predictions \<Rightarrow>
     (case channel_of (py_int cap) args of
        Inl e \<Rightarrow> Inl e
      | Inr channel \<Rightarrow> render_channel cap predictions channel))))))"

text \<open>
  The route \<^verbatim>\<open>/predictions/<classifier_id>/<datasource_id>/info/\<close> (lines 197-222).
  \<open>info_document\<close> is the dictionary that the route builds. In line 202 the attribute
  \<^verbatim>\<open>classifier.get_expected_roi\<close> is looked up first, then \<^verbatim>\<open>datasource.roi\<close> is read, then
  the method is called; the tile shape is read while the dictionary is built.
\<close>

datatype json =
    JString string
  | JInt int
  | JArray "json list"
  | JObject "(string \<times> json) list"

definition full_roi :: "int axes \<Rightarrow> interval axes" where
  "full_roi sh =
     \<lparr>t_ax = (0, t_ax sh), c_ax = (0, c_ax sh), x_ax = (0, x_ax sh),
      y_ax = (0, y_ax sh), z_ax = (0, z_ax sh)\<rparr>"

definition info_document ::
  "('o, 'v) capabilities \<Rightarrow> string \<Rightarrow> string \<Rightarrow> 'o registry \<Rightarrow> exn + json" where
  "info_document cap classifier_id datasource_id objects =
     (case load classifier_id objects of
        Inl e \<Rightarrow> Inl e
      | Inr classifier \<Rightarrow>
     (case load datasource_id objects of
        Inl e \<Rightarrow> Inl e
      | Inr datasource \<Rightarrow>
     (case get_expected_roi cap classifier of
        Inl e \<Rightarrow> Inl e
      | Inr method \<Rightarrow>
     (case datasource_roi cap datasource of
        Inl e \<Rightarrow> Inl e
      | Inr r \<Rightarrow>
     (case method r of
        Inl e \<Rightarrow> Inl e
      | Inr expected \<Rightarrow>
     (case tile_shape cap datasource of
        Inl e \<Rightarrow> Inl e
      | Inr tile \<Rightarrow>
          Inr (JObject
            [(''@type'', JString ''neuroglancer_multiscale_volume''),
             (''type'', JString ''image''),
             (''data_type'', JString ''uint8''),
             (''num_channels'', JInt (extent (c_ax expected))),
             (''scales'', JArray
               [JObject
                 [(''key'', JString ''data''),
                  (''size'', JArray [JInt (extent (x_ax expected)), JInt (extent (y_ax expected)),
                                     JInt (extent (z_ax expected))]),
                  (''resolution'', JArray [JInt 1, JInt 1, JInt 1]),
                  (''voxel_offset'', JArray [JInt 0, JInt 0, JInt 0]),
                  (''chunk_sizes'', JArray
                     [JArray [JInt (x_ax tile), JInt (y_ax tile), JInt (z_ax tile)]]),
                  (''encoding'', JString ''raw'')]])])))))))"

text \<open>
  \<^verbatim>\<open>flask.jsonify\<close> with the settings of the application, which changes none of them: the
  keys of every object sorted, no white space, \<^verbatim>\<open>,\<close> and \<^verbatim>\<open>:\<close> as separators, integers in
  decimal, a line feed at the end. Strings are encoded by \<open>json_quote\<close>.
\<close>

function digits :: "nat \<Rightarrow> string" where
  "digits n = (if n < 10 then [char_of (48 + n)] else digits (n div 10) @ [char_of (48 + n mod 10)])"
  by pat_completeness auto
termination
  by (relation "measure (\<lambda>n. n)") auto

declare digits.simps [simp del]

definition show_int :: "int \<Rightarrow> string" where
  "show_int i = (if i < 0 then CHR ''-'' # digits (nat (- i)) else digits (nat i))"

fun join :: "string \<Rightarrow> string list \<Rightarrow> string" where
  "join sep [] = []"
| "join sep [x] = x"
| "join sep (x # y # rest) = x @ sep @ join sep (y # rest)"

fun str_le :: "string \<Rightarrow> string \<Rightarrow> bool" where
  "str_le [] ys = True"
| "str_le (x # xs) [] = False"
| "str_le (x # xs) (y # ys) =
     ((of_char x :: nat) < of_char y \<or> (x = y \<and> str_le xs ys))"

fun insert_item :: "string \<times> 'a \<Rightarrow> (string \<times> 'a) list \<Rightarrow> (string \<times> 'a) list" where
  "insert_item kv [] = [kv]"
| "insert_item kv (first # rest) =
     (if str_le (fst kv) (fst first) then kv # first # rest else first # insert_item kv rest)"

definition sort_keys :: "(string \<times> 'a) list \<Rightarrow> (string \<times> 'a) list" where
  "sort_keys members = foldr insert_item members []"

fun dumps :: "(string \<Rightarrow> string) \<Rightarrow> json \<Rightarrow> string" where
  "dumps quote (JString s) = quote s"
| "dumps quote (JInt i) = show_int i"
| "dumps quote (JArray elements) = ''['' @ join '','' (map (dumps quote) elements) @ '']''"
| "dumps quote (JObject members) =
     ''{'' @ join '','' (map (\<lambda>kv. quote (fst kv) @ '':'' @ snd kv)
                          (sort_keys (map (\<lambda>kv. (fst kv, dumps quote (snd kv))) members)))
        @ ''}''"

definition jsonify :: "(string \<Rightarrow> string) \<Rightarrow> json \<Rightarrow> string" where
  "jsonify quote document = dumps quote document @ [CHR 0x0A]"

definition info_dict ::
  "('o, 'v) capabilities \<Rightarrow> string \<Rightarrow> string \<Rightarrow> 'o registry \<Rightarrow> exn + string" where
  "info_dict cap classifier_id datasource_id objects =
     (case info_document cap classifier_id datasource_id objects of
        Inl e \<Rightarrow> Inl e
      | Inr document \<Rightarrow> Inr (jsonify (json_quote cap) document))"

text \<open>The keys of a JSON object, and its field of a given name.\<close>

definition json_keys :: "json \<Rightarrow> string list" where
  "json_keys j = (case j of JObject members \<Rightarrow> map fst members | _ \<Rightarrow> [])"

definition json_field :: "json \<Rightarrow> string \<Rightarrow> json option" where
  "json_field j k = (case j of JObject members \<Rightarrow> map_of members k | _ \<Rightarrow> None)"

subsection \<open>A sample installation\<close>

text \<open>
  A small concrete world on which the theorems below are exercised: volumes with a shape
  and a tile shape, a classifier \<open>Forest n\<close> that emits \<open>n\<close> channels, a classifier
  \<open>Flaky n\<close> whose prediction raises on every tile that does not start at \<open>x = 0\<close>, a
  classifier \<open>Patchy n\<close> whose prediction lies at \<open>x = 0\<close> whatever the tile, and an
  annotation.
\<close>

datatype sample = Volume "int axes" "int axes" | Forest int | Flaky int | Patchy int | Scribble

definition sample_classes :: "sample classes" where
  "sample_classes =
     \<lparr>class_of = (\<lambda>obj. case obj of
                      Volume sh tile \<Rightarrow> Unlisted ''N5DataSource''
                    | Forest n \<Rightarrow> VigraPixelClassifier
                    | Flaky n \<Rightarrow> ScikitLearnPixelClassifier
                    | Patchy n \<Rightarrow> ScikitLearnPixelClassifier
                    | Scribble \<Rightarrow> Annotation),
      issubclass = (\<lambda>a b. a = b \<or> (a, b) \<in> set
                      [(Unlisted ''N5DataSource'', DataSource),
                       (SequenceDataSource, DataSource),
                       (VigraPixelClassifier, PixelClassifier),
                       (ScikitLearnPixelClassifier, PixelClassifier),
                       (IlpVigraPixelClassifier, VigraPixelClassifier),
                       (IlpVigraPixelClassifier, PixelClassifier)])\<rparr>"

definition sample_values :: "interval axes \<Rightarrow> int \<Rightarrow> int Array5D" where
  "sample_values tile n =
     \<lparr>array_roi = tile\<lparr>c_ax := (0, n)\<rparr>,
      array_data = (\<lambda>p. 1 + x_ax p + 10 * y_ax p + 100 * c_ax p),
      array_writes = (\<lambda>p. 0)\<rparr>"

fun digit_value :: "char \<Rightarrow> int option" where
  "digit_value ch =
     (if 48 \<le> (of_char ch :: nat) \<and> (of_char ch :: nat) \<le> 57
      then Some (int (of_char ch) - 48) else None)"

fun decimal_from :: "int \<Rightarrow> string \<Rightarrow> int option" where
  "decimal_from acc [] = Some acc"
| "decimal_from acc (ch # cs) =
     (case digit_value ch of None \<Rightarrow> None | Some d \<Rightarrow> decimal_from (10 * acc + d) cs)"

definition decimal :: "string \<Rightarrow> int option" where
  "decimal s = (if s = [] then None else decimal_from 0 s)"

definition sample_capabilities :: "(sample, int) capabilities" where
  "sample_capabilities =
     \<lparr>shape = (\<lambda>obj. case obj of Volume sh tile \<Rightarrow> Inr sh | _ \<Rightarrow> Inl (AttributeError ''shape'')),
      tile_shape =
        (\<lambda>obj. case obj of Volume sh tile \<Rightarrow> Inr tile | _ \<Rightarrow> Inl (AttributeError ''tile_shape'')),
      datasource_roi =
        (\<lambda>obj. case obj of Volume sh tile \<Rightarrow> Inr (full_roi sh) | _ \<Rightarrow> Inl (AttributeError ''roi'')),
      get_expected_roi =
        (\<lambda>obj. case obj of
                   Forest n \<Rightarrow> Inr (\<lambda>r. Inr (r\<lparr>c_ax := (0, n)\<rparr>))
                 | Flaky n \<Rightarrow> Inr (\<lambda>r. Inr (r\<lparr>c_ax := (0, n)\<rparr>))
                 | Patchy n \<Rightarrow> Inr (\<lambda>r. Inr (r\<lparr>c_ax := (0, n)\<rparr>))
                 | _ \<Rightarrow> Inl (AttributeError ''get_expected_roi'')),
      classifier_predict =
        (\<lambda>obj datasource tile. case obj of
                   Forest n \<Rightarrow> Inr (sample_values tile n)
                 | Flaky n \<Rightarrow>
                     if fst (x_ax tile) = 0 then Inr (sample_values tile n)
                     else Inl (LibraryError ''predict'')
                 | Patchy n \<Rightarrow> Inr (sample_values (tile\<lparr>x_ax := (0, 1)\<rparr>) n)
                 | _ \<Rightarrow> Inl (AttributeError ''predict'')),
      blank = 0,
      as_uint8 = (\<lambda>v. word_of_int v),
      as_uint8_normalized = (\<lambda>v. word_of_int (255 * v)),
      py_int = decimal,
      png = concat,
      json_quote = (\<lambda>s. [CHR 0x22] @ s @ [CHR 0x22])\<rparr>"

text \<open>
  What \<^verbatim>\<open>str.title()\<close> computes on ASCII text: the first letter of every maximal run of
  letters is made upper case, the other letters of the run lower case; every other
  character is kept and ends the run. The flag says whether the previous character was a
  letter. The sample installation uses it on ASCII names only.
\<close>

definition is_lower :: "char \<Rightarrow> bool" where
  "is_lower ch = (97 \<le> (of_char ch :: nat) \<and> (of_char ch :: nat) \<le> 122)"

definition is_upper :: "char \<Rightarrow> bool" where
  "is_upper ch = (65 \<le> (of_char ch :: nat) \<and> (of_char ch :: nat) \<le> 90)"

definition to_upper :: "char \<Rightarrow> char" where
  "to_upper ch = (if is_lower ch then char_of ((of_char ch :: nat) - 32) else ch)"

definition to_lower :: "char \<Rightarrow> char" where
  "to_lower ch = (if is_upper ch then char_of ((of_char ch :: nat) + 32) else ch)"

fun title_from :: "bool \<Rightarrow> string \<Rightarrow> string" where
  "title_from prev [] = []"
| "title_from prev (ch # cs) =
     (if is_lower ch \<or> is_upper ch
      then (if prev then to_lower ch else to_upper ch) # title_from True cs
      else ch # title_from False cs)"

definition ascii_title :: "string \<Rightarrow> string" where
  "ascii_title s = title_from False s"

definition sample_runtime :: "debugger \<Rightarrow> runtime" where
  "sample_runtime dbg = \<lparr>str_title = ascii_title, pydevd = dbg\<rparr>"

definition sample_builders :: "debugger \<Rightarrow> sample builders" where
  "sample_builders dbg =
     \<lparr>unflatten = (\<lambda>flat. Dict (map (\<lambda>(k, v). (k, Leaf v)) flat)),
      py_str = (\<lambda>v. ''object''),
      from_json_data =
        (\<lambda>klass p. if klass = Annotation then Inr Scribble
                    else if klass = VigraPixelClassifier then Inr (Forest 2)
                    else Inl (LibraryError ''from_json_data'')),
      show_channels = (\<lambda>obj. None),
      interpreter = sample_runtime dbg,
      uuid4 = ''6f1c''\<rparr>"

definition strip :: "int axes" where
  "strip = \<lparr>t_ax = 1, c_ax = 1, x_ax = 2, y_ax = 1, z_ax = 1\<rparr>"

definition unit_tile :: "int axes" where
  "unit_tile = \<lparr>t_ax = 1, c_ax = 1, x_ax = 1, y_ax = 1, z_ax = 1\<rparr>"

definition sample_objects :: "sample registry" where
  "sample_objects =
     [''pointer@ds'' \<mapsto> Volume strip unit_tile, ''pointer@rf'' \<mapsto> Forest 2,
      ''pointer@flaky'' \<mapsto> Flaky 2]"

definition preview_request :: "(string \<times> string) list" where
  "preview_request =
     [(''x'', ''0_2''), (''pixel_classifier_id'', ''pointer@rf''),
      (''data_source_id'', ''pointer@ds'')]"

definition strip_request :: "interval option axes" where
  "strip_request = \<lparr>t_ax = None, c_ax = None, x_ax = Some (0, 2), y_ax = None, z_ax = None\<rparr>"

definition cell :: "int \<Rightarrow> int \<Rightarrow> int \<Rightarrow> int \<Rightarrow> int \<Rightarrow> int axes" where
  "cell t c x y z = \<lparr>t_ax = t, c_ax = c, x_ax = x, y_ax = y, z_ax = z\<rparr>"

definition left_tile :: "interval axes" where
  "left_tile = \<lparr>t_ax = (0, 1), c_ax = (0, 1), x_ax = (0, 1), y_ax = (0, 1), z_ax = (0, 1)\<rparr>"

definition right_tile :: "interval axes" where
  "right_tile = \<lparr>t_ax = (0, 1), c_ax = (0, 1), x_ax = (1, 2), y_ax = (0, 1), z_ax = (0, 1)\<rparr>"

definition empty_buffer :: "int Array5D" where
  "empty_buffer =
     \<lparr>array_roi = (full_roi strip)\<lparr>c_ax := (0, 2)\<rparr>, array_data = (\<lambda>p. 0),
      array_writes = (\<lambda>p. 0)\<rparr>"

definition slab :: "int axes" where
  "slab = \<lparr>t_ax = 1, c_ax = 1, x_ax = 10, y_ax = 10, z_ax = 1\<rparr>"

definition slab_tile :: "int axes" where
  "slab_tile = \<lparr>t_ax = 1, c_ax = 1, x_ax = 4, y_ax = 4, z_ax = 1\<rparr>"

definition slab_objects :: "sample registry" where
  "slab_objects = [''pointer@slab'' \<mapsto> Volume slab slab_tile, ''pointer@rf'' \<mapsto> Forest 2]"

definition rgb :: "int axes" where
  "rgb = \<lparr>t_ax = 1, c_ax = 2, x_ax = 1, y_ax = 1, z_ax = 1\<rparr>"

definition rgb_objects :: "sample registry" where
  "rgb_objects = [''pointer@rgb'' \<mapsto> Volume rgb unit_tile, ''pointer@rf'' \<mapsto> Forest 2]"

definition whole :: "interval option axes" where
  "whole = \<lparr>t_ax = None, c_ax = None, x_ax = None, y_ax = None, z_ax = None\<rparr>"

definition red_tile :: "interval axes" where
  "red_tile = \<lparr>t_ax = (0, 1), c_ax = (0, 1), x_ax = (0, 1), y_ax = (0, 1), z_ax = (0, 1)\<rparr>"

definition green_tile :: "interval axes" where
  "green_tile = \<lparr>t_ax = (0, 1), c_ax = (1, 2), x_ax = (0, 1), y_ax = (0, 1), z_ax = (0, 1)\<rparr>"

definition no_channel :: "interval option axes" where
  "no_channel = \<lparr>t_ax = None, c_ax = Some (0, 0), x_ax = None, y_ax = None, z_ax = None\<rparr>"

definition patchy_objects :: "sample registry" where
  "patchy_objects = [''pointer@ds'' \<mapsto> Volume strip unit_tile, ''pointer@patchy'' \<mapsto> Patchy 2]"

section \<open>The registry\<close>

text \<open>
  C4. For every object \<open>X\<close> and every id given by the client, \<^verbatim>\<open>store(id, X)\<close> returns
  the handle \<^verbatim>\<open>"pointer@" + id\<close>; \<^verbatim>\<open>load(store(None, X))\<close> returns \<open>X\<close>, whatever id the call
  draws; and \<^verbatim>\<open>store(id, X)\<close> followed by \<^verbatim>\<open>store(id, Y)\<close> gives the same handle, whose
  \<^verbatim>\<open>load\<close> returns \<open>Y\<close>.
\<close>

theorem store_load_last_write_wins:
  "fst (store to_str fresh (Some (Leaf (Text obj_id))) X objects) = ''pointer@'' @ obj_id
   \<and> load (fst (store to_str fresh None X objects)) (snd (store to_str fresh None X objects))
       = Inr X
   \<and> fst (store to_str fresh' (Some (Leaf (Text obj_id))) Y
             (snd (store to_str fresh (Some (Leaf (Text obj_id))) X objects)))
       = fst (store to_str fresh (Some (Leaf (Text obj_id))) X objects)
   \<and> load (''pointer@'' @ obj_id)
        (snd (store to_str fresh' (Some (Leaf (Text obj_id))) Y
                (snd (store to_str fresh (Some (Leaf (Text obj_id))) X objects)))) = Inr Y"
  by (simp add: store_def load_def render_id_def Let_def)

theorem store_load_last_write_wins_witness:
  "fst (store (\<lambda>v. ''object'') ''6f1c'' (Some (Leaf (Text ''abc''))) Scribble sample_objects)
     = ''pointer@abc''
   \<and> fst (store (\<lambda>v. ''object'') ''6f1c'' None Scribble sample_objects) = ''pointer@6f1c''
   \<and> load ''pointer@6f1c'' (snd (store (\<lambda>v. ''object'') ''6f1c'' None Scribble sample_objects))
       = Inr Scribble
   \<and> load ''pointer@abc''
        (snd (store (\<lambda>v. ''object'') ''77aa'' (Some (Leaf (Text ''abc''))) (Forest 3)
                (snd (store (\<lambda>v. ''object'') ''6f1c'' (Some (Leaf (Text ''abc''))) Scribble
                        sample_objects)))) = Inr (Forest 3)"
proof -
  have fresh: "fst (store (\<lambda>v. ''object'') ''6f1c'' None Scribble sample_objects) = ''pointer@6f1c''"
    by (simp add: store_def Let_def)
  show ?thesis
    using store_load_last_write_wins [of "\<lambda>v. ''object''" "''6f1c''" "''abc''" Scribble
        sample_objects "''77aa''" "Forest 3"] fresh
    by simp
qed

text \<open>
  C5. For every stored entry whose class is not a subclass of the expected class,
  \<^verbatim>\<open>remove(expected_type, handle)\<close> raises the exception of the class mismatch and leaves
  the registry as it was: a following \<^verbatim>\<open>load\<close> of the handle returns the stored object.
\<close>

theorem remove_wrong_type_keeps_entry:
  assumes "objects key = Some obj"
    and "\<not> issubclass cl (class_of cl obj) expected_type"
  shows "remove cl (Some expected_type) key objects
           = (Inl (UnexpectedClass (class_of cl obj) key), objects)
         \<and> load key (snd (remove cl (Some expected_type) key objects)) = Inr obj"
  using assms by (simp add: remove_def load_def)

theorem remove_wrong_type_keeps_entry_witness:
  "sample_objects ''pointer@ds'' = Some (Volume strip unit_tile)
   \<and> \<not> issubclass sample_classes (class_of sample_classes (Volume strip unit_tile)) Annotation
   \<and> remove sample_classes (Some Annotation) ''pointer@ds'' sample_objects
       = (Inl (UnexpectedClass (Unlisted ''N5DataSource'') ''pointer@ds''), sample_objects)
   \<and> load ''pointer@ds''
        (snd (remove sample_classes (Some Annotation) ''pointer@ds'' sample_objects))
       = Inr (Volume strip unit_tile)"
proof -
  have a: "sample_objects ''pointer@ds'' = Some (Volume strip unit_tile)"
    by (simp add: sample_objects_def)
  have b: "\<not> issubclass sample_classes (class_of sample_classes (Volume strip unit_tile)) Annotation"
    by (simp add: sample_classes_def)
  have c: "class_of sample_classes (Volume strip unit_tile) = Unlisted ''N5DataSource''"
    by (simp add: sample_classes_def)
  note r = remove_wrong_type_keeps_entry [of sample_objects "''pointer@ds''"
      "Volume strip unit_tile" sample_classes Annotation, OF a b]
  show ?thesis
    using r a b unfolding c by blast
qed

text \<open>
  C9. For every class \<open>T\<close>, \<^verbatim>\<open>get_all(T)\<close> holds exactly the entries of the registry whose
  object's class is a subclass of \<open>T\<close>: each of them under its handle, and nothing else.
\<close>

theorem get_all_exactly_instances:
  "(get_all cl T objects handle = Some obj)
     = (objects handle = Some obj \<and> issubclass cl (class_of cl obj) T)"
  by (auto simp add: get_all_def isinstance_def split: option.splits)

theorem get_all_exactly_instances_witness:
  "get_all sample_classes PixelClassifier sample_objects ''pointer@rf'' = Some (Forest 2)
   \<and> get_all sample_classes PixelClassifier sample_objects ''pointer@ds'' = None
   \<and> get_all sample_classes DataSource sample_objects ''pointer@ds''
       = Some (Volume strip unit_tile)"
proof -
  have rf: "sample_objects ''pointer@rf'' = Some (Forest 2)"
    and ds: "sample_objects ''pointer@ds'' = Some (Volume strip unit_tile)"
    by (simp_all add: sample_objects_def)
  have sub: "issubclass sample_classes (class_of sample_classes (Forest 2)) PixelClassifier"
    "\<not> issubclass sample_classes (class_of sample_classes (Volume strip unit_tile)) PixelClassifier"
    "issubclass sample_classes (class_of sample_classes (Volume strip unit_tile)) DataSource"
    by (simp_all add: sample_classes_def)
  have "get_all sample_classes PixelClassifier sample_objects ''pointer@ds'' \<noteq> Some obj" for obj
    using get_all_exactly_instances [of sample_classes PixelClassifier sample_objects
        "''pointer@ds''" obj] ds sub(2)
    by auto
  then have none: "get_all sample_classes PixelClassifier sample_objects ''pointer@ds'' = None"
    by (cases "get_all sample_classes PixelClassifier sample_objects ''pointer@ds''") auto
  show ?thesis
    using get_all_exactly_instances [of sample_classes PixelClassifier sample_objects
        "''pointer@rf''" "Forest 2"]
      get_all_exactly_instances [of sample_classes DataSource sample_objects
        "''pointer@ds''" "Volume strip unit_tile"] rf ds sub none
    by simp
qed

section \<open>Unknown class names and unknown handles over HTTP\<close>

lemma resolve_form_error:
  "resolve_form kvs objects acc = Inl e \<Longrightarrow> \<exists>k. e = KeyError k"
  by (induction kvs objects acc rule: resolve_form.induct)
     (auto simp add: load_def split: if_splits sum.splits option.splits)

lemma create_without_class:
  "create b None req objects = (Inl e, objects') \<Longrightarrow>
     objects' = objects \<and> ((\<exists>k. e = KeyError k) \<or> e = AttributeError ''from_json_data'')"
  by (auto simp add: create_def get_request_payload_def split: sum.splits
           dest: resolve_form_error)

lemma create_without_class_fails:
  "\<exists>e. create b None req objects = (Inl e, objects)"
  by (auto simp add: create_def get_request_payload_def split: sum.splits)

lemma unknown_name_lookup:
  assumes "class_name \<notin> set (map fst workflow_classes)"
    and "drop_underscores (str_title rt class_name) \<notin> set (map fst workflow_classes)"
  shows "map_of workflow_classes (normalize_name rt class_name) = None"
  using assms by (simp add: normalize_name_def map_of_eq_None_iff)

text \<open>
  C3, as the code has it. For every class name that matches no key of the allow-list,
  neither as it is nor after \<^verbatim>\<open>title()\<close> and the removal of underscores, the route
  \<^verbatim>\<open>POST /<class_name>/\<close> fails with an exception that no handler catches, which the client
  sees as the generic server error of status 500 and not as a client error; no object is
  constructed or stored, the registry is unchanged.
\<close>

theorem create_unknown_class_server_error:
  assumes "class_name \<notin> set (map fst workflow_classes)"
    and "drop_underscores (str_title (interpreter b) class_name)
           \<notin> set (map fst workflow_classes)"
  shows "isl (fst (create_object cl b class_name req objects))
         \<and> http_status (fst (create_object cl b class_name req objects)) = 500
         \<and> snd (create_object cl b class_name req objects) = objects"
proof -
  have none: "map_of workflow_classes (normalize_name (interpreter b) class_name) = None"
    using assms by (rule unknown_name_lookup)
  show ?thesis
  proof (cases "pydevd (interpreter b)")
    case NotInstalled
    then show ?thesis
      using none by (simp add: create_object_def get_class_named_def)
  next
    case Attached
    obtain e where e: "create b None req objects = (Inl e, objects)"
      using create_without_class_fails by blast
    then have "(\<exists>k. e = KeyError k) \<or> e = AttributeError ''from_json_data''"
      using create_without_class by blast
    then have "http_status (Inl e :: exn + string) = 500"
      by auto
    then show ?thesis
      using none Attached e by (simp add: create_object_def get_class_named_def)
  qed
qed

text \<open>
  The claim C3 as it was written asks for a client error. The class name \<^verbatim>\<open>nosuch\<close> is
  answered with status 500.
\<close>

theorem create_unknown_class_counterexample:
  "\<not> client_error (http_status (fst (create_object sample_classes (sample_builders Attached)
       ''nosuch'' \<lparr>form = [], files = []\<rparr> sample_objects)))"
  by code_simp

theorem create_unknown_class_server_error_witness:
  "''nosuch'' \<notin> set (map fst workflow_classes)
   \<and> drop_underscores (str_title (interpreter (sample_builders NotInstalled)) ''nosuch'')
        \<notin> set (map fst workflow_classes)
   \<and> isl (fst (create_object sample_classes (sample_builders NotInstalled) ''nosuch''
         \<lparr>form = [], files = []\<rparr> sample_objects))
   \<and> http_status (fst (create_object sample_classes (sample_builders NotInstalled) ''nosuch''
         \<lparr>form = [], files = []\<rparr> sample_objects)) = 500
   \<and> snd (create_object sample_classes (sample_builders NotInstalled) ''nosuch''
         \<lparr>form = [], files = []\<rparr> sample_objects) = sample_objects"
proof -
  have a: "''nosuch'' \<notin> set (map fst workflow_classes)" by code_simp
  have b: "drop_underscores (str_title (interpreter (sample_builders NotInstalled)) ''nosuch'')
             \<notin> set (map fst workflow_classes)"
    by code_simp
  show ?thesis
    using create_unknown_class_server_error [OF a b] a b by blast
qed

text \<open>
  C6, as the code has it. For every handle that the registry does not hold, \<^verbatim>\<open>remove\<close>
  raises the \<^verbatim>\<open>KeyError\<close> of the lookup and leaves the registry unchanged. The route
  \<^verbatim>\<open>DELETE /<class_name>/<object_id>\<close> never answers 200 then: it fails with an exception
  that no handler catches (status 500) and leaves the registry unchanged; whenever
  \<^verbatim>\<open>get_class_named\<close> returns, that exception is the \<^verbatim>\<open>KeyError\<close> of the lookup.
\<close>

theorem remove_absent_handle:
  assumes "objects key = None"
  shows "remove cl klass key objects = (Inl (KeyError key), objects)
         \<and> http_status (fst (remove_object cl rt class_name key objects)) = 500
         \<and> snd (remove_object cl rt class_name key objects) = objects
         \<and> (\<forall>k. get_class_named rt class_name = Inr k \<longrightarrow>
               fst (remove_object cl rt class_name key objects) = Inl (KeyError key))"
  using assms
  by (auto simp add: remove_def remove_object_def get_class_named_def
           split: option.splits debugger.splits)

text \<open>
  The claim C6 as it was written says that the route fails with the missing handle. For
  \<^verbatim>\<open>DELETE /datasource/pointer@abc\<close> the name \<^verbatim>\<open>datasource\<close> becomes \<^verbatim>\<open>Datasource\<close>, which is no
  key of the table; without the debugger the import raises before \<^verbatim>\<open>remove\<close> is called.
\<close>

theorem remove_absent_handle_counterexample:
  "sample_objects ''pointer@abc'' = None
   \<and> fst (remove_object sample_classes (sample_runtime NotInstalled) ''datasource'' ''pointer@abc'' sample_objects)
       \<noteq> Inl (KeyError ''pointer@abc'')
   \<and> http_status (fst (remove_object sample_classes (sample_runtime NotInstalled) ''datasource'' ''pointer@abc''
        sample_objects)) = 500"
  by code_simp

theorem remove_absent_handle_witness:
  "sample_objects ''pointer@abc'' = None
   \<and> remove sample_classes (Some DataSource) ''pointer@abc'' sample_objects
        = (Inl (KeyError ''pointer@abc''), sample_objects)
   \<and> http_status (fst (remove_object sample_classes (sample_runtime Attached) ''data_source'' ''pointer@abc''
        sample_objects)) = 500
   \<and> snd (remove_object sample_classes (sample_runtime Attached) ''data_source'' ''pointer@abc'' sample_objects)
        = sample_objects
   \<and> get_class_named (sample_runtime Attached) ''data_source'' = Inr (Some DataSource)
   \<and> fst (remove_object sample_classes (sample_runtime Attached) ''data_source'' ''pointer@abc'' sample_objects)
        = Inl (KeyError ''pointer@abc'')"
proof -
  have a: "sample_objects ''pointer@abc'' = None"
    by (simp add: sample_objects_def)
  have b: "get_class_named (sample_runtime Attached) ''data_source'' = Inr (Some DataSource)"
    by code_simp
  show ?thesis
    using remove_absent_handle [of sample_objects "''pointer@abc''" sample_classes
        "Some DataSource" "sample_runtime Attached" "''data_source''", OF a] a b
    by blast
qed

section \<open>The rendered preview\<close>

lemma update_absent: "map_of al k = None \<Longrightarrow> AList.update k v al = al @ [(k, v)]"
  by (induction al) (auto split: if_splits)

lemma items_append_absent:
  assumes "map_of args k = None"
  shows "items (args @ [(k, v)]) = items args @ [(k, v)]"
proof -
  have "items (args @ [(k, v)]) = AList.clearjunk (AList.update k v args)"
    using assms by (simp add: items_def update_absent)
  also have "\<dots> = AList.update k v (items args)"
    by (simp add: items_def clearjunk_update)
  also have "\<dots> = items args @ [(k, v)]"
    using assms by (simp add: items_def update_absent map_of_clearjunk)
  finally show ?thesis .
qed

lemma channel_is_no_axis: "\<not> is_substring ''channel'' ''tcxyz''"
  by (simp add: startswith_def)

lemma roi_params_loop_append:
  "\<not> is_substring k ''tcxyz'' \<Longrightarrow>
     roi_params_loop to_int (kvs @ [(k, v)]) acc = roi_params_loop to_int kvs acc"
  by (induction to_int kvs acc rule: roi_params_loop.induct)
     (auto split: list.splits option.splits)

lemma map_of_append_absent:
  "map_of args k = None \<Longrightarrow> map_of (args @ [(k, v)]) k = Some v"
  by (induction args) (auto split: if_splits)

text \<open>
  C10. For every request to \<^verbatim>\<open>GET /predict/\<close> that has no \<^verbatim>\<open>channel\<close> parameter, the image
  is rendered from channel 0 of the prediction buffer: an image that the route returns is
  \<open>render_channel\<close> of the buffer at channel 0, and the request answers exactly as the same
  request with a \<^verbatim>\<open>channel\<close> parameter that reads as 0.
\<close>

theorem predict_channel_defaults_to_zero:
  assumes "map_of args ''channel'' = None"
  shows "(\<forall>image. predict cap schedule args objects = Inr image \<longrightarrow>
            (\<exists>slc classifier_id datasource_id predictions.
               do_predictions cap schedule slc classifier_id datasource_id objects = Inr predictions
               \<and> render_channel cap predictions 0 = Inr image))
         \<and> (\<forall>zero. py_int cap zero = Some 0 \<longrightarrow>
               predict cap schedule (args @ [(''channel'', zero)]) objects
                 = predict cap schedule args objects)"
proof (intro conjI allI impI)
  fix image
  assume "predict cap schedule args objects = Inr image"
  then show "\<exists>slc classifier_id datasource_id predictions.
               do_predictions cap schedule slc classifier_id datasource_id objects = Inr predictions
               \<and> render_channel cap predictions 0 = Inr image"
    using assms
    by (auto simp add: predict_def channel_of_def split: sum.splits option.splits)
next
  fix zero
  assume zero: "py_int cap zero = Some 0"
  have loop: "roi_params_loop (py_int cap) (items (args @ [(''channel'', zero)])) []
                = roi_params_loop (py_int cap) (items args) []"
    using assms channel_is_no_axis by (simp add: items_append_absent roi_params_loop_append)
  have ids: "map_of (args @ [(''channel'', zero)]) ''pixel_classifier_id''
               = map_of args ''pixel_classifier_id''"
    "map_of (args @ [(''channel'', zero)]) ''data_source_id'' = map_of args ''data_source_id''"
    by (simp_all add: map_add_def split: option.splits)
  have ch: "channel_of (py_int cap) (args @ [(''channel'', zero)]) = channel_of (py_int cap) args"
    using assms zero by (simp add: channel_of_def map_add_def)
  show "predict cap schedule (args @ [(''channel'', zero)]) objects
          = predict cap schedule args objects"
    unfolding predict_def loop ids ch ..
qed

theorem predict_channel_defaults_to_zero_witness:
  "map_of preview_request ''channel'' = None
   \<and> py_int sample_capabilities ''0'' = Some 0
   \<and> predict sample_capabilities id preview_request sample_objects = Inr [255, 254]
   \<and> predict sample_capabilities id (preview_request @ [(''channel'', ''0'')]) sample_objects
       = Inr [255, 254]
   \<and> (\<exists>slc classifier_id datasource_id predictions.
         do_predictions sample_capabilities id slc classifier_id datasource_id sample_objects
           = Inr predictions
         \<and> render_channel sample_capabilities predictions 0 = Inr [255, 254])"
proof -
  have a: "map_of preview_request ''channel'' = None"
    by (simp add: preview_request_def)
  have b: "py_int sample_capabilities ''0'' = Some 0"
    by code_simp
  have c: "predict sample_capabilities id preview_request sample_objects = Inr [255, 254]"
    unfolding preview_request_def by code_simp
  note r = predict_channel_defaults_to_zero [of preview_request sample_capabilities id
      sample_objects, OF a]
  show ?thesis
    using r a b c by metis
qed

section \<open>The tiled prediction pipeline\<close>

lemma run_tasks_skips_failed:
  "run_tasks cap classifier datasource tiles predictions
     = run_tasks cap classifier datasource
         (filter (\<lambda>tile. \<not> isl (classifier_predict cap classifier datasource tile)) tiles) predictions"
  by (induction tiles arbitrary: predictions)
     (auto simp add: predict_tile_def split: sum.splits)

lemma run_tasks_roi:
  "array_roi (run_tasks cap classifier datasource tiles predictions) = array_roi predictions"
  by (induction tiles arbitrary: predictions)
     (auto simp add: predict_tile_def set_autocrop_def split: sum.splits)

lemma run_tasks_untouched:
  "times_written cap classifier datasource tiles (array_roi predictions) p = 0 \<Longrightarrow>
     array_data (run_tasks cap classifier datasource tiles predictions) p = array_data predictions p"
proof (induction tiles arbitrary: predictions)
  case Nil
  then show ?case by simp
next
  case (Cons tile tiles)
  show ?case
  proof (cases "classifier_predict cap classifier datasource tile")
    case (Inl e)
    then show ?thesis
      using Cons by (simp add: predict_tile_def times_written_def)
  next
    case (Inr tile_prediction)
    with Cons.prems have outside: "\<not> intersection (array_roi tile_prediction) (array_roi predictions) p"
      and rest: "times_written cap classifier datasource tiles (array_roi predictions) p = 0"
      by (auto simp add: times_written_def split: if_splits)
    have "array_data (run_tasks cap classifier datasource tiles (set_autocrop predictions tile_prediction)) p
            = array_data (set_autocrop predictions tile_prediction) p"
      using rest by (intro Cons.IH) (simp add: set_autocrop_def)
    then show ?thesis
      using Inr outside by (auto simp add: predict_tile_def set_autocrop_def intersection_def)
  qed
qed

text \<open>
  C1, as the code has it. For every request whose handles resolve and whose buffer is
  allocated, a tile whose prediction raises does not make \<^verbatim>\<open>do_predictions\<close> fail: the
  exception stays in the future that the loop drops, and the call returns the buffer that
  the tasks of the other tiles have written; a cell that no task has written holds what
  the allocation left there.
\<close>

theorem failed_tile_does_not_fail_request:
  assumes "load classifier_id objects = Inr classifier"
    and "load datasource_id objects = Inr datasource"
    and "defined cap datasource slc = Inr backed_roi"
    and "allocate_predictions cap classifier backed_roi = Inr predictions"
    and "get_tiles cap datasource backed_roi = Inr tiles"
    and "tile \<in> set (schedule tiles)"
    and "classifier_predict cap classifier datasource tile = Inl e"
  shows "\<exists>buffer.
           do_predictions cap schedule slc classifier_id datasource_id objects = Inr buffer
           \<and> buffer = run_tasks cap classifier datasource
                (filter (\<lambda>tile. \<not> isl (classifier_predict cap classifier datasource tile))
                   (schedule tiles)) predictions
           \<and> (\<forall>p. times_written cap classifier datasource (schedule tiles) (array_roi buffer) p = 0
                 \<longrightarrow> array_data buffer p = blank cap)"
proof -
  let ?buffer = "run_tasks cap classifier datasource (schedule tiles) predictions"
  have ret: "do_predictions cap schedule slc classifier_id datasource_id objects = Inr ?buffer"
    using assms by (simp add: do_predictions_def)
  have blank: "array_data predictions p = blank cap" for p
    using assms(4) by (auto simp add: allocate_predictions_def split: sum.splits)
  have "array_data ?buffer p = blank cap"
    if "times_written cap classifier datasource (schedule tiles) (array_roi ?buffer) p = 0" for p
    using that run_tasks_untouched [of cap classifier datasource "schedule tiles" predictions p] blank
    by (simp add: run_tasks_roi)
  then show ?thesis
    using ret run_tasks_skips_failed [of cap classifier datasource "schedule tiles" predictions]
    by auto
qed

text \<open>
  The claim C1 as it was written says that no buffer is returned. Here the prediction of
  the right tile raises, and the call returns a buffer that holds the left tile only.
\<close>

theorem failed_tile_counterexample:
  "isl (classifier_predict sample_capabilities (Flaky 2) (Volume strip unit_tile) right_tile)
   \<and> \<not> isl (do_predictions sample_capabilities id strip_request ''pointer@flaky'' ''pointer@ds''
              sample_objects)
   \<and> array_data (projr (do_predictions sample_capabilities id strip_request ''pointer@flaky''
        ''pointer@ds'' sample_objects)) (cell 0 0 0 0 0) = 1
   \<and> array_data (projr (do_predictions sample_capabilities id strip_request ''pointer@flaky''
        ''pointer@ds'' sample_objects)) (cell 0 0 1 0 0) = 0"
  by code_simp


theorem failed_tile_does_not_fail_request_witness:
  "load ''pointer@flaky'' sample_objects = Inr (Flaky 2)
   \<and> load ''pointer@ds'' sample_objects = Inr (Volume strip unit_tile)
   \<and> defined sample_capabilities (Volume strip unit_tile) strip_request = Inr (full_roi strip)
   \<and> allocate_predictions sample_capabilities (Flaky 2) (full_roi strip) = Inr empty_buffer
   \<and> get_tiles sample_capabilities (Volume strip unit_tile) (full_roi strip)
        = Inr (tile_grid (full_roi strip) unit_tile)
   \<and> right_tile \<in> set (rev (tile_grid (full_roi strip) unit_tile))
   \<and> classifier_predict sample_capabilities (Flaky 2) (Volume strip unit_tile) right_tile
        = Inl (LibraryError ''predict'')
   \<and> (\<exists>buffer.
         do_predictions sample_capabilities rev strip_request ''pointer@flaky'' ''pointer@ds''
           sample_objects = Inr buffer
         \<and> buffer = run_tasks sample_capabilities (Flaky 2) (Volume strip unit_tile)
              (filter (\<lambda>tile. \<not> isl (classifier_predict sample_capabilities (Flaky 2)
                                       (Volume strip unit_tile) tile))
                 (rev (tile_grid (full_roi strip) unit_tile))) empty_buffer
         \<and> (\<forall>p. times_written sample_capabilities (Flaky 2) (Volume strip unit_tile)
                  (rev (tile_grid (full_roi strip) unit_tile)) (array_roi buffer) p = 0
               \<longrightarrow> array_data buffer p = blank sample_capabilities))"
proof -
  have a: "load ''pointer@flaky'' sample_objects = Inr (Flaky 2)"
    by (simp add: load_def sample_objects_def)
  have b: "load ''pointer@ds'' sample_objects = Inr (Volume strip unit_tile)"
    by (simp add: load_def sample_objects_def)
  have c: "defined sample_capabilities (Volume strip unit_tile) strip_request = Inr (full_roi strip)"
    by (simp add: defined_def sample_capabilities_def resolve_def resolve_axis_def
          strip_request_def full_roi_def strip_def)
  have d: "allocate_predictions sample_capabilities (Flaky 2) (full_roi strip) = Inr empty_buffer"
    by (simp add: allocate_predictions_def expected_roi_def sample_capabilities_def
          empty_buffer_def)
  have e: "get_tiles sample_capabilities (Volume strip unit_tile) (full_roi strip)
             = Inr (tile_grid (full_roi strip) unit_tile)"
    by (simp add: get_tiles_def sample_capabilities_def)
  have f: "right_tile \<in> set (rev (tile_grid (full_roi strip) unit_tile))"
    by code_simp
  have g: "classifier_predict sample_capabilities (Flaky 2) (Volume strip unit_tile) right_tile
             = Inl (LibraryError ''predict'')"
    by (simp add: sample_capabilities_def right_tile_def)
  note r = failed_tile_does_not_fail_request [of "''pointer@flaky''" sample_objects "Flaky 2"
      "''pointer@ds''" "Volume strip unit_tile" sample_capabilities strip_request
      "full_roi strip" empty_buffer "tile_grid (full_roi strip) unit_tile" right_tile rev
      "LibraryError ''predict''", OF a b c d e f g]
  show ?thesis
    using a b c d e f g r by blast
qed

section \<open>The discovery document\<close>

lemma show_small: "show_int 0 = ''0''" "show_int 1 = ''1''"
  by code_simp+

lemma sorted_document:
  "sort_keys [(''@type'', a), (''type'', b), (''data_type'', c), (''num_channels'', d), (''scales'', e)]
     = [(''@type'', a), (''data_type'', c), (''num_channels'', d), (''scales'', e), (''type'', b)]"
  by (simp add: sort_keys_def)

lemma sorted_scale:
  "sort_keys [(''key'', a), (''size'', b), (''resolution'', c), (''voxel_offset'', d),
              (''chunk_sizes'', e), (''encoding'', f)]
     = [(''chunk_sizes'', e), (''encoding'', f), (''key'', a), (''resolution'', c), (''size'', b),
        (''voxel_offset'', d)]"
  by (simp add: sort_keys_def)

lemma info_document_registry:
  assumes "objects' classifier_id = objects classifier_id"
    and "objects' datasource_id = objects datasource_id"
  shows "info_document cap classifier_id datasource_id objects'
           = info_document cap classifier_id datasource_id objects"
proof -
  have l1: "load classifier_id objects' = load classifier_id objects"
    and l2: "load datasource_id objects' = load datasource_id objects"
    using assms by (simp_all add: load_def)
  show ?thesis
    unfolding info_document_def l1 l2 by (rule refl)
qed

lemma info_document_value:
  assumes "objects classifier_id = Some classifier"
    and "objects datasource_id = Some datasource"
    and "get_expected_roi cap classifier = Inr method"
    and "datasource_roi cap datasource = Inr r"
    and "method r = Inr expected"
    and "tile_shape cap datasource = Inr tile"
  shows "info_document cap classifier_id datasource_id objects
           = Inr (JObject
            [(''@type'', JString ''neuroglancer_multiscale_volume''),
             (''type'', JString ''image''),
             (''data_type'', JString ''uint8''),
             (''num_channels'', JInt (extent (c_ax expected))),
             (''scales'', JArray
               [JObject
                 [(''key'', JString ''data''),
                  (''size'', JArray [JInt (extent (x_ax expected)), JInt (extent (y_ax expected)),
                                     JInt (extent (z_ax expected))]),
                  (''resolution'', JArray [JInt 1, JInt 1, JInt 1]),
                  (''voxel_offset'', JArray [JInt 0, JInt 0, JInt 0]),
                  (''chunk_sizes'', JArray
                     [JArray [JInt (x_ax tile), JInt (y_ax tile), JInt (z_ax tile)]]),
                  (''encoding'', JString ''raw'')]])])"
  using assms by (simp add: info_document_def load_def)

text \<open>
  C8. For every pair of a classifier and a data source that the registry holds and whose
  methods return, the route \<^verbatim>\<open>/predictions/<classifier_id>/<datasource_id>/info/\<close> answers
  with exactly the bytes written out below: one JSON object with the keys \<^verbatim>\<open>@type\<close>,
  \<^verbatim>\<open>data_type\<close>, \<^verbatim>\<open>num_channels\<close>, \<^verbatim>\<open>scales\<close> and \<^verbatim>\<open>type\<close>, where \<^verbatim>\<open>scales\<close> is a list of one object
  with the keys \<^verbatim>\<open>chunk_sizes\<close>, \<^verbatim>\<open>encoding\<close>, \<^verbatim>\<open>key\<close>, \<^verbatim>\<open>resolution\<close>, \<^verbatim>\<open>size\<close> and
  \<^verbatim>\<open>voxel_offset\<close>. The bytes depend on the expected region and on the tile shape only, so a
  second call on a registry that still holds the two entries returns the same bytes. The
  dictionary that the route builds has the keys of the schema and no others.
\<close>

theorem info_dict_bytes:
  assumes "objects classifier_id = Some classifier"
    and "objects datasource_id = Some datasource"
    and "get_expected_roi cap classifier = Inr method"
    and "datasource_roi cap datasource = Inr r"
    and "method r = Inr expected"
    and "tile_shape cap datasource = Inr tile"
  shows "info_dict cap classifier_id datasource_id objects
           = Inr (''{'' @ json_quote cap ''@type'' @ '':'' @ json_quote cap ''neuroglancer_multiscale_volume'' @ '',''
                @ json_quote cap ''data_type'' @ '':'' @ json_quote cap ''uint8'' @ '',''
                @ json_quote cap ''num_channels'' @ '':'' @ show_int (extent (c_ax expected)) @ '',''
                @ json_quote cap ''scales'' @ '':[{''
                @ json_quote cap ''chunk_sizes'' @ '':[['' @ show_int (x_ax tile) @ '',''
                    @ show_int (y_ax tile) @ '','' @ show_int (z_ax tile) @ '']],''
                @ json_quote cap ''encoding'' @ '':'' @ json_quote cap ''raw'' @ '',''
                @ json_quote cap ''key'' @ '':'' @ json_quote cap ''data'' @ '',''
                @ json_quote cap ''resolution'' @ '':[1,1,1],''
                @ json_quote cap ''size'' @ '':['' @ show_int (extent (x_ax expected)) @ '',''
                    @ show_int (extent (y_ax expected)) @ '',''
                    @ show_int (extent (z_ax expected)) @ ''],''
                @ json_quote cap ''voxel_offset'' @ '':[0,0,0]}],''
                @ json_quote cap ''type'' @ '':'' @ json_quote cap ''image'' @ ''}'' @ [CHR 0x0A])
         \<and> (\<forall>objects'. objects' classifier_id = objects classifier_id
               \<and> objects' datasource_id = objects datasource_id \<longrightarrow>
               info_dict cap classifier_id datasource_id objects'
                 = info_dict cap classifier_id datasource_id objects)
         \<and> (\<exists>document scale.
               info_document cap classifier_id datasource_id objects = Inr document
               \<and> json_keys document = [''@type'', ''type'', ''data_type'', ''num_channels'', ''scales'']
               \<and> json_field document ''scales'' = Some (JArray [scale])
               \<and> json_keys scale = [''key'', ''size'', ''resolution'', ''voxel_offset'',
                                     ''chunk_sizes'', ''encoding''])"
proof (intro conjI allI impI)
  show "info_dict cap classifier_id datasource_id objects
          = Inr (''{'' @ json_quote cap ''@type'' @ '':'' @ json_quote cap ''neuroglancer_multiscale_volume'' @ '',''
                @ json_quote cap ''data_type'' @ '':'' @ json_quote cap ''uint8'' @ '',''
                @ json_quote cap ''num_channels'' @ '':'' @ show_int (extent (c_ax expected)) @ '',''
                @ json_quote cap ''scales'' @ '':[{''
                @ json_quote cap ''chunk_sizes'' @ '':[['' @ show_int (x_ax tile) @ '',''
                    @ show_int (y_ax tile) @ '','' @ show_int (z_ax tile) @ '']],''
                @ json_quote cap ''encoding'' @ '':'' @ json_quote cap ''raw'' @ '',''
                @ json_quote cap ''key'' @ '':'' @ json_quote cap ''data'' @ '',''
                @ json_quote cap ''resolution'' @ '':[1,1,1],''
                @ json_quote cap ''size'' @ '':['' @ show_int (extent (x_ax expected)) @ '',''
                    @ show_int (extent (y_ax expected)) @ '',''
                    @ show_int (extent (z_ax expected)) @ ''],''
                @ json_quote cap ''voxel_offset'' @ '':[0,0,0]}],''
                @ json_quote cap ''type'' @ '':'' @ json_quote cap ''image'' @ ''}'' @ [CHR 0x0A])"
    unfolding info_dict_def info_document_value [OF assms]
    by (simp add: jsonify_def sorted_document sorted_scale show_small)
next
  fix objects' :: "'a registry"
  assume "objects' classifier_id = objects classifier_id
            \<and> objects' datasource_id = objects datasource_id"
  then have "info_document cap classifier_id datasource_id objects'
               = info_document cap classifier_id datasource_id objects"
    by (intro info_document_registry) simp_all
  then show "info_dict cap classifier_id datasource_id objects'
               = info_dict cap classifier_id datasource_id objects"
    by (simp only: info_dict_def)
next
  show "\<exists>document scale.
          info_document cap classifier_id datasource_id objects = Inr document
          \<and> json_keys document = [''@type'', ''type'', ''data_type'', ''num_channels'', ''scales'']
          \<and> json_field document ''scales'' = Some (JArray [scale])
          \<and> json_keys scale = [''key'', ''size'', ''resolution'', ''voxel_offset'',
                                ''chunk_sizes'', ''encoding'']"
    unfolding info_document_value [OF assms]
    by (simp add: json_keys_def json_field_def)
qed


theorem info_dict_bytes_witness:
  "sample_objects ''pointer@rf'' = Some (Forest 2)
   \<and> sample_objects ''pointer@ds'' = Some (Volume strip unit_tile)
   \<and> get_expected_roi sample_capabilities (Forest 2) = Inr (\<lambda>r. Inr (r\<lparr>c_ax := (0, 2)\<rparr>))
   \<and> datasource_roi sample_capabilities (Volume strip unit_tile) = Inr (full_roi strip)
   \<and> tile_shape sample_capabilities (Volume strip unit_tile) = Inr unit_tile
   \<and> info_dict sample_capabilities ''pointer@rf'' ''pointer@ds'' sample_objects
       = Inr (''{'' @ json_quote sample_capabilities ''@type'' @ '':'' @ json_quote sample_capabilities ''neuroglancer_multiscale_volume'' @ '',''
                @ json_quote sample_capabilities ''data_type'' @ '':'' @ json_quote sample_capabilities ''uint8'' @ '',''
                @ json_quote sample_capabilities ''num_channels'' @ '':'' @ show_int (extent (c_ax ((full_roi strip)\<lparr>c_ax := (0, 2)\<rparr>))) @ '',''
                @ json_quote sample_capabilities ''scales'' @ '':[{''
                @ json_quote sample_capabilities ''chunk_sizes'' @ '':[['' @ show_int (x_ax unit_tile) @ '',''
                    @ show_int (y_ax unit_tile) @ '','' @ show_int (z_ax unit_tile) @ '']],''
                @ json_quote sample_capabilities ''encoding'' @ '':'' @ json_quote sample_capabilities ''raw'' @ '',''
                @ json_quote sample_capabilities ''key'' @ '':'' @ json_quote sample_capabilities ''data'' @ '',''
                @ json_quote sample_capabilities ''resolution'' @ '':[1,1,1],''
                @ json_quote sample_capabilities ''size'' @ '':['' @ show_int (extent (x_ax ((full_roi strip)\<lparr>c_ax := (0, 2)\<rparr>))) @ '',''
                    @ show_int (extent (y_ax ((full_roi strip)\<lparr>c_ax := (0, 2)\<rparr>))) @ '',''
                    @ show_int (extent (z_ax ((full_roi strip)\<lparr>c_ax := (0, 2)\<rparr>))) @ ''],''
                @ json_quote sample_capabilities ''voxel_offset'' @ '':[0,0,0]}],''
                @ json_quote sample_capabilities ''type'' @ '':'' @ json_quote sample_capabilities ''image'' @ ''}'' @ [CHR 0x0A])
   \<and> info_dict sample_capabilities ''pointer@rf'' ''pointer@ds''
        (sample_objects(''pointer@note'' \<mapsto> Scribble))
       = info_dict sample_capabilities ''pointer@rf'' ''pointer@ds'' sample_objects
   \<and> length (projr (info_dict sample_capabilities ''pointer@rf'' ''pointer@ds'' sample_objects))
       = 221"
proof -
  have a: "sample_objects ''pointer@rf'' = Some (Forest 2)"
    and b: "sample_objects ''pointer@ds'' = Some (Volume strip unit_tile)"
    by (simp_all add: sample_objects_def)
  have c: "get_expected_roi sample_capabilities (Forest 2) = Inr (\<lambda>r. Inr (r\<lparr>c_ax := (0, 2)\<rparr>))"
    and d: "datasource_roi sample_capabilities (Volume strip unit_tile) = Inr (full_roi strip)"
    and f: "tile_shape sample_capabilities (Volume strip unit_tile) = Inr unit_tile"
    by (simp_all add: sample_capabilities_def)
  have e: "(\<lambda>r. Inr (r\<lparr>c_ax := (0, 2)\<rparr>)) (full_roi strip)
             = (Inr ((full_roi strip)\<lparr>c_ax := (0, 2)\<rparr>) :: exn + interval axes)"
    by simp
  note r = info_dict_bytes [of sample_objects "''pointer@rf''" "Forest 2" "''pointer@ds''"
      "Volume strip unit_tile" sample_capabilities "\<lambda>r. Inr (r\<lparr>c_ax := (0, 2)\<rparr>)"
      "full_roi strip" "(full_roi strip)\<lparr>c_ax := (0, 2)\<rparr>" unit_tile, OF a b c d e f]
  have same: "info_dict sample_capabilities ''pointer@rf'' ''pointer@ds''
                (sample_objects(''pointer@note'' \<mapsto> Scribble))
              = info_dict sample_capabilities ''pointer@rf'' ''pointer@ds'' sample_objects"
    using r by simp
  have len: "length (projr (info_dict sample_capabilities ''pointer@rf'' ''pointer@ds''
               sample_objects)) = 221"
    by code_simp
  show ?thesis
    using a b c d f r same len by blast
qed

section \<open>The tile grid is a partition\<close>

lemma walk_count:
  "0 < stride \<Longrightarrow>
     length (filter (\<lambda>iv. in_interval iv i) (walk start stop stride))
       = (if in_interval (start, stop) i then 1 else 0)"
proof (induction start stop stride rule: walk.induct)
  case (1 start stop stride)
  show ?case
  proof (cases "start < stop")
    case True
    with 1 have IH: "length (filter (\<lambda>iv. in_interval iv i) (walk (start + stride) stop stride))
                       = (if in_interval (start + stride, stop) i then 1 else 0)"
      by simp
    have unfold: "walk start stop stride
                    = (start, min (start + stride) stop) # walk (start + stride) stop stride"
      using True 1(2) by (subst walk.simps) simp
    show ?thesis
      unfolding unfold using IH 1(2) by (auto simp add: in_interval_def)
  next
    case False
    then have "walk start stop stride = []"
      by (subst walk.simps) simp
    then show ?thesis
      using False by (simp add: in_interval_def)
  qed
qed

lemma walk_single:
  assumes "start < stop" and "stop \<le> start + stride"
  shows "walk start stop stride = [(start, stop)]"
proof -
  have pos: "0 < stride" using assms by simp
  have "walk (start + stride) stop stride = []"
    using assms by (subst walk.simps) simp
  then show ?thesis
    using assms pos by (subst walk.simps) (simp add: min_def)
qed

lemma count_level:
  assumes "\<And>a. length (filter P (g a)) = (if K \<and> A a then n else 0)"
  shows "length (filter P (concat (map g as))) = (if K then length (filter A as) * n else 0)"
  using assms by (induction as) auto

lemma tile_grid_count:
  assumes "0 < t_ax tshape" "0 < c_ax tshape" "0 < x_ax tshape" "0 < y_ax tshape" "0 < z_ax tshape"
  shows "length (filter (\<lambda>tile. contains tile p) (tile_grid r tshape))
           = (if contains r p then 1 else 0)"
proof -
  let ?T = "\<lambda>iv. in_interval iv (t_ax p)" and ?C = "\<lambda>iv. in_interval iv (c_ax p)"
  let ?X = "\<lambda>iv. in_interval iv (x_ax p)" and ?Y = "\<lambda>iv. in_interval iv (y_ax p)"
  let ?Z = "\<lambda>iv. in_interval iv (z_ax p)"
  let ?P = "\<lambda>tile. contains tile p"
  let ?zs = "walk (fst (z_ax r)) (snd (z_ax r)) (z_ax tshape)"
  let ?ys = "walk (fst (y_ax r)) (snd (y_ax r)) (y_ax tshape)"
  let ?xs = "walk (fst (x_ax r)) (snd (x_ax r)) (x_ax tshape)"
  let ?cs = "walk (fst (c_ax r)) (snd (c_ax r)) (c_ax tshape)"
  let ?ts = "walk (fst (t_ax r)) (snd (t_ax r)) (t_ax tshape)"
  let ?gz = "\<lambda>t c x y. map (\<lambda>z. \<lparr>t_ax = t, c_ax = c, x_ax = x, y_ax = y, z_ax = z\<rparr>) ?zs"
  let ?gy = "\<lambda>t c x. concat (map (?gz t c x) ?ys)"
  let ?gx = "\<lambda>t c. concat (map (?gy t c) ?xs)"
  let ?gc = "\<lambda>t. concat (map (?gx t) ?cs)"
  have lz: "length (filter ?P (?gz t c x y))
              = (if ((?T t \<and> ?C c) \<and> ?X x) \<and> ?Y y then length (filter ?Z ?zs) else 0)"
    for t c x y
    by (auto simp add: filter_map comp_def contains_def)
  have ly: "length (filter ?P (?gy t c x))
              = (if (?T t \<and> ?C c) \<and> ?X x then length (filter ?Y ?ys) * length (filter ?Z ?zs) else 0)"
    for t c x
    by (rule count_level) (rule lz)
  have lx: "length (filter ?P (?gx t c))
              = (if ?T t \<and> ?C c
                 then length (filter ?X ?xs) * (length (filter ?Y ?ys) * length (filter ?Z ?zs))
                 else 0)"
    for t c
    by (rule count_level) (rule ly)
  have lc: "length (filter ?P (?gc t))
              = (if True \<and> ?T t
                 then length (filter ?C ?cs) * (length (filter ?X ?xs)
                        * (length (filter ?Y ?ys) * length (filter ?Z ?zs)))
                 else 0)"
    for t
    using count_level [of ?P "?gx t" "?T t" ?C _ ?cs, OF lx] by simp
  have lt: "length (filter ?P (concat (map ?gc ?ts)))
              = (if True then length (filter ?T ?ts) * (length (filter ?C ?cs)
                   * (length (filter ?X ?xs) * (length (filter ?Y ?ys) * length (filter ?Z ?zs))))
                 else 0)"
    by (rule count_level) (rule lc)
  have ct: "length (filter ?T ?ts) = (if in_interval (t_ax r) (t_ax p) then 1 else 0)"
    using assms(1) by (simp add: walk_count)
  have cc: "length (filter ?C ?cs) = (if in_interval (c_ax r) (c_ax p) then 1 else 0)"
    using assms(2) by (simp add: walk_count)
  have cx: "length (filter ?X ?xs) = (if in_interval (x_ax r) (x_ax p) then 1 else 0)"
    using assms(3) by (simp add: walk_count)
  have cy: "length (filter ?Y ?ys) = (if in_interval (y_ax r) (y_ax p) then 1 else 0)"
    using assms(4) by (simp add: walk_count)
  have cz: "length (filter ?Z ?zs) = (if in_interval (z_ax r) (z_ax p) then 1 else 0)"
    using assms(5) by (simp add: walk_count)
  have "length (filter ?P (tile_grid r tshape)) = length (filter ?P (concat (map ?gc ?ts)))"
    by (simp only: tile_grid_def)
  also have "\<dots> = (if contains r p then 1 else 0)"
    unfolding lt ct cc cx cy cz by (simp add: contains_def)
  finally show ?thesis .
qed


lemma tile_grid_c_axis:
  assumes "fst (c_ax r) < snd (c_ax r)"
    and "snd (c_ax r) \<le> fst (c_ax r) + c_ax tshape"
    and "tile \<in> set (tile_grid r tshape)"
  shows "c_ax tile = c_ax r"
  using assms(3) unfolding tile_grid_def walk_single [OF assms(1,2)] by auto

lemma written_regions_all:
  assumes "\<forall>tile \<in> set order. classifier_predict cap classifier datasource tile = Inr (prediction tile)"
  shows "written_regions cap classifier datasource order buffer_roi
           = map (\<lambda>tile. intersection (array_roi (prediction tile)) buffer_roi) order"
  using assms by (induction order) auto

lemma count_permuted:
  "mset order = mset tiles \<Longrightarrow> length (filter P order) = length (filter P tiles)"
  by (metis mset_filter size_mset)

lemma unique_in_count:
  assumes "length (filter P xs) = 1" and "a \<in> set xs" and "P a" and "b \<in> set xs" and "P b"
  shows "a = b"
proof -
  obtain c where c: "filter P xs = [c]"
    using assms(1) by (cases "filter P xs") auto
  have "a \<in> set (filter P xs)" and "b \<in> set (filter P xs)"
    using assms by auto
  then show ?thesis
    unfolding c by simp
qed

lemma run_tasks_single_writer:
  assumes "\<forall>tile \<in> set order. classifier_predict cap classifier datasource tile = Inr (prediction tile)"
    and "\<forall>tile \<in> set order. contains (array_roi (prediction tile)) p \<longrightarrow>
           array_data (prediction tile) p = v"
    and "contains (array_roi predictions) p"
    and "(\<exists>tile \<in> set order. contains (array_roi (prediction tile)) p) \<or> array_data predictions p = v"
  shows "array_data (run_tasks cap classifier datasource order predictions) p = v"
  using assms
proof (induction order arbitrary: predictions)
  case Nil
  then show ?case by simp
next
  case (Cons tile order)
  let ?written = "set_autocrop predictions (prediction tile)"
  have step: "run_tasks cap classifier datasource (tile # order) predictions
                = run_tasks cap classifier datasource order ?written"
    using Cons.prems(1) by (simp add: predict_tile_def)
  have roi: "contains (array_roi ?written) p"
    using Cons.prems(3) by (simp add: set_autocrop_def)
  have "(\<exists>tile \<in> set order. contains (array_roi (prediction tile)) p) \<or> array_data ?written p = v"
    using Cons.prems(2,3,4) by (auto simp add: set_autocrop_def)
  then have "array_data (run_tasks cap classifier datasource order ?written) p = v"
    using Cons.prems(1,2) roi by (intro Cons.IH) auto
  then show ?case
    unfolding step .
qed


lemma contains_c_update:
  "contains (r\<lparr>c_ax := channels\<rparr>) p
     = (in_interval (t_ax r) (t_ax p) \<and> in_interval channels (c_ax p) \<and>
        in_interval (x_ax r) (x_ax p) \<and> in_interval (y_ax r) (y_ax p) \<and>
        in_interval (z_ax r) (z_ax p))"
  by (simp add: contains_def)

lemma contains_point_c_update:
  "contains r (p\<lparr>c_ax := c\<rparr>)
     = (in_interval (t_ax r) (t_ax p) \<and> in_interval (c_ax r) c \<and>
        in_interval (x_ax r) (x_ax p) \<and> in_interval (y_ax r) (y_ax p) \<and>
        in_interval (z_ax r) (z_ax p))"
  by (simp add: contains_def)

lemma in_interval_start: "fst iv < snd iv \<Longrightarrow> in_interval iv (fst iv)"
  by (simp add: in_interval_def)

lemma run_tasks_writes:
  "array_writes (run_tasks cap classifier datasource order predictions) p
     = array_writes predictions p
       + times_written cap classifier datasource order (array_roi predictions) p"
proof (induction order arbitrary: predictions)
  case Nil
  then show ?case by (simp add: times_written_def)
next
  case (Cons tile order)
  show ?case
  proof (cases "classifier_predict cap classifier datasource tile")
    case (Inl e)
    then show ?thesis
      using Cons.IH [of predictions] by (simp add: predict_tile_def times_written_def)
  next
    case (Inr tile_prediction)
    then show ?thesis
      using Cons.IH [of "set_autocrop predictions tile_prediction"]
      by (simp add: predict_tile_def times_written_def set_autocrop_def intersection_def)
  qed
qed

text \<open>
  C2, as amended. For every request against a data source of positive tile shape in which
  no task fails, whose channel range is not empty and lies in one tile of the data source,
  and in which every prediction covers the region of its tile with the channels of the
  classifier (the channels of the region that the classifier expects for the request),
  \<^verbatim>\<open>do_predictions\<close> returns the buffer after every scheduled task has run once, in
  whatever order the pool ran them: every cell of the buffer's region (the resolved
  request with the channels of the classifier) has been written exactly once, and the
  prediction of every tile is in the buffer.
\<close>

theorem tiles_written_exactly_once:
  assumes "objects classifier_id = Some classifier"
    and "objects datasource_id = Some datasource"
    and "shape cap datasource = Inr sh"
    and "tile_shape cap datasource = Inr tshape"
    and "0 < t_ax tshape" and "0 < x_ax tshape" and "0 < y_ax tshape" and "0 < z_ax tshape"
    and "fst (c_ax (resolve slc sh)) < snd (c_ax (resolve slc sh))"
    and "snd (c_ax (resolve slc sh)) \<le> fst (c_ax (resolve slc sh)) + c_ax tshape"
    and "expected_roi cap classifier (resolve slc sh) = Inr ((resolve slc sh)\<lparr>c_ax := channels\<rparr>)"
    and "\<forall>tile \<in> set (tile_grid (resolve slc sh) tshape).
           classifier_predict cap classifier datasource tile = Inr (prediction tile)
           \<and> array_roi (prediction tile) = tile\<lparr>c_ax := channels\<rparr>"
    and "mset (schedule (tile_grid (resolve slc sh) tshape)) = mset (tile_grid (resolve slc sh) tshape)"
  shows "\<exists>buffer.
           do_predictions cap schedule slc classifier_id datasource_id objects = Inr buffer
           \<and> array_roi buffer = (resolve slc sh)\<lparr>c_ax := channels\<rparr>
           \<and> (\<forall>p. contains (array_roi buffer) p \<longrightarrow> array_writes buffer p = 1)
           \<and> (\<forall>tile \<in> set (tile_grid (resolve slc sh) tshape).
                 \<forall>p. contains (array_roi (prediction tile)) p \<longrightarrow>
                   contains (array_roi buffer) p
                   \<and> array_data buffer p = array_data (prediction tile) p)"
proof -
  let ?r = "resolve slc sh"
  let ?tiles = "tile_grid ?r tshape"
  let ?order = "schedule ?tiles"
  let ?broi = "?r\<lparr>c_ax := channels\<rparr>"
  let ?start = "\<lparr>array_roi = ?broi, array_data = (\<lambda>p. blank cap), array_writes = (\<lambda>p. 0)\<rparr>"
  let ?buffer = "run_tasks cap classifier datasource ?order ?start"
  have cpos: "0 < c_ax tshape"
    using assms(9,10) by simp
  have same_set: "set ?order = set ?tiles"
    using assms(13) by (rule mset_eq_setD)
  have ret: "do_predictions cap schedule slc classifier_id datasource_id objects = Inr ?buffer"
    using assms(1-4,11)
    by (simp add: do_predictions_def load_def defined_def allocate_predictions_def get_tiles_def)
  have broi: "array_roi ?buffer = ?broi"
    by (simp add: run_tasks_roi)
  have ok: "\<forall>tile \<in> set ?order. classifier_predict cap classifier datasource tile = Inr (prediction tile)"
    using assms(12) same_set by simp
  have region: "contains (array_roi (prediction tile)) p = contains tile (p\<lparr>c_ax := fst (c_ax ?r)\<rparr>)"
    if "tile \<in> set ?tiles" and "contains ?broi p" for tile p
  proof -
    have c: "c_ax tile = c_ax ?r"
      using assms(9,10) that(1) by (rule tile_grid_c_axis)
    have "array_roi (prediction tile) = tile\<lparr>c_ax := channels\<rparr>"
      using assms(12) that(1) by simp
    then show ?thesis
      using that(2) c assms(9) by (simp add: contains_c_update contains_point_c_update in_interval_start)
  qed
  have inside: "contains ?broi p" if "tile \<in> set ?tiles" and "contains (array_roi (prediction tile)) p"
    for tile p
  proof -
    have c: "c_ax tile = c_ax ?r"
      using assms(9,10) that(1) by (rule tile_grid_c_axis)
    have roi: "array_roi (prediction tile) = tile\<lparr>c_ax := channels\<rparr>"
      using assms(12) that(1) by simp
    let ?q = "p\<lparr>c_ax := fst (c_ax ?r)\<rparr>"
    have "contains tile ?q"
      using that(2) roi c assms(9) by (simp add: contains_c_update contains_point_c_update in_interval_start)
    then have "length (filter (\<lambda>tile. contains tile ?q) ?tiles) \<noteq> 0"
      using that(1) by (auto simp add: filter_empty_conv)
    then have "contains ?r ?q"
      using tile_grid_count [OF assms(5) cpos assms(6,7,8), of ?q ?r] by (simp split: if_splits)
    then show ?thesis
      using that(2) roi by (simp add: contains_c_update contains_point_c_update in_interval_start)
  qed
  have count: "length (filter (\<lambda>tile. contains (array_roi (prediction tile)) p) ?tiles) = 1"
    if "contains ?broi p" for p
  proof -
    let ?q = "p\<lparr>c_ax := fst (c_ax ?r)\<rparr>"
    have "contains ?r ?q"
      using that assms(9) by (simp add: contains_c_update contains_point_c_update in_interval_start)
    then have "length (filter (\<lambda>tile. contains tile ?q) ?tiles) = 1"
      using tile_grid_count [OF assms(5) cpos assms(6,7,8), of ?q ?r] by simp
    moreover have "filter (\<lambda>tile. contains (array_roi (prediction tile)) p) ?tiles
                     = filter (\<lambda>tile. contains tile ?q) ?tiles"
      using region that by (intro filter_cong) auto
    ultimately show ?thesis by simp
  qed
  have once: "array_writes ?buffer p = 1"
    if "contains (array_roi ?buffer) p" for p
  proof -
    have p: "contains ?broi p"
      using that broi by simp
    have "times_written cap classifier datasource ?order ?broi p
            = length (filter (\<lambda>tile. intersection (array_roi (prediction tile)) ?broi p) ?order)"
      by (simp add: times_written_def written_regions_all [OF ok] filter_map comp_def)
    also have "\<dots> = length (filter (\<lambda>tile. contains (array_roi (prediction tile)) p) ?order)"
      using p by (simp add: intersection_def)
    also have "\<dots> = length (filter (\<lambda>tile. contains (array_roi (prediction tile)) p) ?tiles)"
      using assms(13) by (rule count_permuted)
    also have "\<dots> = 1"
      using p by (rule count)
    finally show ?thesis
      using run_tasks_writes [of cap classifier datasource ?order ?start p] by simp
  qed
  have content: "contains (array_roi ?buffer) p \<and> array_data ?buffer p = array_data (prediction tile) p"
    if "tile \<in> set ?tiles" and "contains (array_roi (prediction tile)) p" for tile p
  proof -
    have p: "contains ?broi p"
      using that by (rule inside)
    have only: "\<forall>other \<in> set ?order. contains (array_roi (prediction other)) p \<longrightarrow>
                  array_data (prediction other) p = array_data (prediction tile) p"
    proof (intro ballI impI)
      fix other
      assume "other \<in> set ?order" and "contains (array_roi (prediction other)) p"
      then have "other = tile"
        using unique_in_count [OF count [OF p], of other tile] that same_set by simp
      then show "array_data (prediction other) p = array_data (prediction tile) p"
        by simp
    qed
    have "array_data ?buffer p = array_data (prediction tile) p"
    proof (rule run_tasks_single_writer [where prediction = prediction])
      show "\<forall>tile \<in> set ?order.
              classifier_predict cap classifier datasource tile = Inr (prediction tile)"
        by (rule ok)
      show "\<forall>other \<in> set ?order. contains (array_roi (prediction other)) p \<longrightarrow>
              array_data (prediction other) p = array_data (prediction tile) p"
        by (rule only)
      show "contains (array_roi ?start) p"
        using p by simp
      show "(\<exists>other \<in> set ?order. contains (array_roi (prediction other)) p)
              \<or> array_data ?start p = array_data (prediction tile) p"
        using that same_set by blast
    qed
    then show ?thesis
      using p broi by simp
  qed
  show ?thesis
    using ret broi once content by blast
qed


theorem tiles_written_exactly_once_witness:
  "sample_objects ''pointer@rf'' = Some (Forest 2)
   \<and> sample_objects ''pointer@ds'' = Some (Volume strip unit_tile)
   \<and> shape sample_capabilities (Volume strip unit_tile) = Inr strip
   \<and> tile_shape sample_capabilities (Volume strip unit_tile) = Inr unit_tile
   \<and> 0 < t_ax unit_tile \<and> 0 < x_ax unit_tile \<and> 0 < y_ax unit_tile \<and> 0 < z_ax unit_tile
   \<and> fst (c_ax (resolve strip_request strip)) < snd (c_ax (resolve strip_request strip))
   \<and> snd (c_ax (resolve strip_request strip))
        \<le> fst (c_ax (resolve strip_request strip)) + c_ax unit_tile
   \<and> expected_roi sample_capabilities (Forest 2) (resolve strip_request strip)
        = Inr ((resolve strip_request strip)\<lparr>c_ax := (0, 2)\<rparr>)
   \<and> tile_grid (resolve strip_request strip) unit_tile = [left_tile, right_tile]
   \<and> classifier_predict sample_capabilities (Forest 2) (Volume strip unit_tile) left_tile
        = Inr (sample_values left_tile 2)
   \<and> array_roi (sample_values left_tile 2) = left_tile\<lparr>c_ax := (0, 2)\<rparr>
   \<and> classifier_predict sample_capabilities (Forest 2) (Volume strip unit_tile) right_tile
        = Inr (sample_values right_tile 2)
   \<and> array_roi (sample_values right_tile 2) = right_tile\<lparr>c_ax := (0, 2)\<rparr>
   \<and> mset (rev (tile_grid (resolve strip_request strip) unit_tile))
        = mset (tile_grid (resolve strip_request strip) unit_tile)
   \<and> (\<exists>buffer.
         do_predictions sample_capabilities rev strip_request ''pointer@rf'' ''pointer@ds''
           sample_objects = Inr buffer
         \<and> array_roi buffer = (resolve strip_request strip)\<lparr>c_ax := (0, 2)\<rparr>
         \<and> (\<forall>p. contains (array_roi buffer) p \<longrightarrow> array_writes buffer p = 1)
         \<and> (\<forall>tile \<in> set (tile_grid (resolve strip_request strip) unit_tile).
               \<forall>p. contains (array_roi (sample_values tile 2)) p \<longrightarrow>
                 contains (array_roi buffer) p
                 \<and> array_data buffer p = array_data (sample_values tile 2) p))"
proof -
  have a: "sample_objects ''pointer@rf'' = Some (Forest 2)"
    and b: "sample_objects ''pointer@ds'' = Some (Volume strip unit_tile)"
    by (simp_all add: sample_objects_def)
  have c: "shape sample_capabilities (Volume strip unit_tile) = Inr strip"
    and d: "tile_shape sample_capabilities (Volume strip unit_tile) = Inr unit_tile"
    by (simp_all add: sample_capabilities_def)
  have e: "0 < t_ax unit_tile" and f: "0 < x_ax unit_tile"
    and g: "0 < y_ax unit_tile" and h: "0 < z_ax unit_tile"
    by (simp_all add: unit_tile_def)
  have i: "fst (c_ax (resolve strip_request strip)) < snd (c_ax (resolve strip_request strip))"
    and j: "snd (c_ax (resolve strip_request strip))
              \<le> fst (c_ax (resolve strip_request strip)) + c_ax unit_tile"
    by (simp_all add: resolve_def resolve_axis_def strip_request_def strip_def unit_tile_def)
  have k: "expected_roi sample_capabilities (Forest 2) (resolve strip_request strip)
             = Inr ((resolve strip_request strip)\<lparr>c_ax := (0, 2)\<rparr>)"
    by (simp add: expected_roi_def sample_capabilities_def)
  have l: "\<forall>tile \<in> set (tile_grid (resolve strip_request strip) unit_tile).
             classifier_predict sample_capabilities (Forest 2) (Volume strip unit_tile) tile
               = Inr (sample_values tile 2)
             \<and> array_roi (sample_values tile 2) = tile\<lparr>c_ax := (0, 2)\<rparr>"
    by (simp add: sample_capabilities_def sample_values_def)
  have m: "mset (rev (tile_grid (resolve strip_request strip) unit_tile))
             = mset (tile_grid (resolve strip_request strip) unit_tile)"
    by simp
  have grid: "tile_grid (resolve strip_request strip) unit_tile = [left_tile, right_tile]"
    by code_simp
  have each: "classifier_predict sample_capabilities (Forest 2) (Volume strip unit_tile) tile
                = Inr (sample_values tile 2)
              \<and> array_roi (sample_values tile 2) = tile\<lparr>c_ax := (0, 2)\<rparr>" for tile
    by (simp add: sample_capabilities_def sample_values_def)
  note r = tiles_written_exactly_once [of sample_objects "''pointer@rf''" "Forest 2"
      "''pointer@ds''" "Volume strip unit_tile" sample_capabilities strip unit_tile
      strip_request "(0, 2)" "\<lambda>tile. sample_values tile 2" rev,
      OF a b c d e f g h i j k l m]
  show ?thesis
    using a b c d e f g h i j k m r grid each [of left_tile] each [of right_tile] by blast
qed


text \<open>
  The claim C2 as it was written speaks of every request in which no task fails. A data
  source whose tiles split the channel axis has two tiles over the same pixels, and the
  classifier writes its channels for each of them: no task fails and the cell is written
  twice. A request with the empty channel range \<^verbatim>\<open>c=0_0\<close> has no tile at all: no task fails
  and the cells of the buffer are never written. A classifier that places every prediction
  at \<open>x = 0\<close> fails on no tile of a data source two cells wide, and the cell at \<open>x = 1\<close> is
  never written while the cell at \<open>x = 0\<close> is written twice.
\<close>

theorem tiles_written_counterexample:
  "tile_grid (resolve whole rgb) unit_tile = [red_tile, green_tile]
   \<and> \<not> isl (classifier_predict sample_capabilities (Forest 2) (Volume rgb unit_tile) red_tile)
   \<and> \<not> isl (classifier_predict sample_capabilities (Forest 2) (Volume rgb unit_tile) green_tile)
   \<and> \<not> isl (do_predictions sample_capabilities id whole ''pointer@rf'' ''pointer@rgb''
              rgb_objects)
   \<and> contains (array_roi (projr (do_predictions sample_capabilities id whole ''pointer@rf''
        ''pointer@rgb'' rgb_objects))) (cell 0 0 0 0 0)
   \<and> array_writes (projr (do_predictions sample_capabilities id whole ''pointer@rf''
        ''pointer@rgb'' rgb_objects)) (cell 0 0 0 0 0) = 2
   \<and> tile_grid (resolve no_channel strip) unit_tile = []
   \<and> \<not> isl (do_predictions sample_capabilities id no_channel ''pointer@rf'' ''pointer@ds''
              sample_objects)
   \<and> contains (array_roi (projr (do_predictions sample_capabilities id no_channel ''pointer@rf''
        ''pointer@ds'' sample_objects))) (cell 0 0 0 0 0)
   \<and> array_writes (projr (do_predictions sample_capabilities id no_channel ''pointer@rf''
        ''pointer@ds'' sample_objects)) (cell 0 0 0 0 0) = 0
   \<and> tile_grid (resolve strip_request strip) unit_tile = [left_tile, right_tile]
   \<and> \<not> isl (classifier_predict sample_capabilities (Patchy 2) (Volume strip unit_tile) left_tile)
   \<and> \<not> isl (classifier_predict sample_capabilities (Patchy 2) (Volume strip unit_tile) right_tile)
   \<and> \<not> isl (do_predictions sample_capabilities id strip_request ''pointer@patchy''
              ''pointer@ds'' patchy_objects)
   \<and> contains (array_roi (projr (do_predictions sample_capabilities id strip_request
        ''pointer@patchy'' ''pointer@ds'' patchy_objects))) (cell 0 0 1 0 0)
   \<and> array_writes (projr (do_predictions sample_capabilities id strip_request
        ''pointer@patchy'' ''pointer@ds'' patchy_objects)) (cell 0 0 1 0 0) = 0
   \<and> array_writes (projr (do_predictions sample_capabilities id strip_request
        ''pointer@patchy'' ''pointer@ds'' patchy_objects)) (cell 0 0 0 0 0) = 2"
  by code_simp

section \<open>The raw chunk\<close>

lemma concat_map_length:
  "(\<And>a. a \<in> set as \<Longrightarrow> length (f a) = n) \<Longrightarrow> length (concat (map f as)) = length as * n"
  by (induction as) auto

lemma concat_map_nth:
  assumes "\<And>a. a \<in> set as \<Longrightarrow> length (f a) = n"
    and "i < length as" and "j < n"
  shows "concat (map f as) ! (i * n + j) = f (as ! i) ! j"
  using assms
proof (induction as arbitrary: i)
  case Nil
  then show ?case by simp
next
  case (Cons a as)
  have len: "length (f a) = n"
    using Cons.prems(1) by simp
  show ?case
  proof (cases i)
    case 0
    then show ?thesis
      using len Cons.prems(3) by (simp add: nth_append)
  next
    case (Suc i')
    have "concat (map f as) ! (i' * n + j) = f (as ! i') ! j"
      using Cons.prems Suc by (intro Cons.IH) auto
    then show ?thesis
      using len Suc by (simp add: nth_append)
  qed
qed

lemma length_range_list: "length (range_list iv) = nat (extent iv)"
  by (simp add: range_list_def)

lemma nth_range_list: "i < nat (extent iv) \<Longrightarrow> range_list iv ! i = fst iv + int i"
  by (simp add: range_list_def)

lemma raw_layout:
  fixes a :: "8 word Array5D"
  defines "nx \<equiv> nat (extent (x_ax (array_roi a)))"
    and "ny \<equiv> nat (extent (y_ax (array_roi a)))"
    and "nz \<equiv> nat (extent (z_ax (array_roi a)))"
    and "nc \<equiv> nat (extent (c_ax (array_roi a)))"
  shows "\<exists>body. raw_xyzc_tobytes_F a = body
           \<and> length body = nx * ny * nz * nc
           \<and> (\<forall>i j k ch. i < nx \<longrightarrow> j < ny \<longrightarrow> k < nz \<longrightarrow> ch < nc \<longrightarrow>
                 body ! (i + nx * (j + ny * (k + nz * ch)))
                   = array_data a (cell (fst (t_ax (array_roi a)))
                       (fst (c_ax (array_roi a)) + int ch) (fst (x_ax (array_roi a)) + int i)
                       (fst (y_ax (array_roi a)) + int j) (fst (z_ax (array_roi a)) + int k)))"
proof -
  let ?r = "array_roi a"
  let ?xs = "range_list (x_ax ?r)" and ?ys = "range_list (y_ax ?r)"
  let ?zs = "range_list (z_ax ?r)" and ?cs = "range_list (c_ax ?r)"
  let ?row = "\<lambda>c z y. map (\<lambda>x. array_data a (cell (fst (t_ax ?r)) c x y z)) ?xs"
  let ?plane = "\<lambda>c z. concat (map (?row c z) ?ys)"
  let ?volume = "\<lambda>c. concat (map (?plane c) ?zs)"
  let ?body = "concat (map ?volume ?cs)"
  have body: "raw_xyzc_tobytes_F a = ?body"
    by (simp add: raw_xyzc_tobytes_F_def cell_def)
  have len_row: "length (?row c z y) = nx" for c z y
    by (simp add: nx_def length_range_list)
  have len_plane: "length (?plane c z) = ny * nx" for c z
    using concat_map_length [of ?ys "?row c z" nx] len_row
    by (simp add: ny_def length_range_list)
  have len_volume: "length (?volume c) = nz * (ny * nx)" for c
    using concat_map_length [of ?zs "?plane c" "ny * nx"] len_plane
    by (simp add: nz_def length_range_list)
  have len_body: "length ?body = nc * (nz * (ny * nx))"
    using concat_map_length [of ?cs ?volume "nz * (ny * nx)"] len_volume
    by (simp add: nc_def length_range_list)
  have at: "?body ! (i + nx * (j + ny * (k + nz * ch)))
              = array_data a (cell (fst (t_ax ?r)) (fst (c_ax ?r) + int ch) (fst (x_ax ?r) + int i)
                  (fst (y_ax ?r) + int j) (fst (z_ax ?r) + int k))"
    if "i < nx" and "j < ny" and "k < nz" and "ch < nc" for i j k ch
  proof -
    have idx: "i + nx * (j + ny * (k + nz * ch))
                 = ch * (nz * (ny * nx)) + (k * (ny * nx) + (j * nx + i))"
      by (simp add: algebra_simps)
    have j_lt: "j * nx + i < ny * nx"
    proof -
      have "j * nx + i < j * nx + nx" using that(1) by simp
      also have "\<dots> = Suc j * nx" by simp
      also have "\<dots> \<le> ny * nx" using that(2) by (intro mult_le_mono1) simp
      finally show ?thesis .
    qed
    have k_lt: "k * (ny * nx) + (j * nx + i) < nz * (ny * nx)"
    proof -
      have "k * (ny * nx) + (j * nx + i) < k * (ny * nx) + ny * nx" using j_lt by simp
      also have "\<dots> = Suc k * (ny * nx)" by simp
      also have "\<dots> \<le> nz * (ny * nx)" using that(3) by (intro mult_le_mono1) simp
      finally show ?thesis .
    qed
    have "?body ! (ch * (nz * (ny * nx)) + (k * (ny * nx) + (j * nx + i)))
            = ?volume (?cs ! ch) ! (k * (ny * nx) + (j * nx + i))"
      using that(4) k_lt len_volume
      by (intro concat_map_nth) (simp_all add: nc_def length_range_list)
    also have "\<dots> = ?plane (?cs ! ch) (?zs ! k) ! (j * nx + i)"
      using that(3) j_lt len_plane
      by (intro concat_map_nth) (simp_all add: nz_def length_range_list)
    also have "\<dots> = ?row (?cs ! ch) (?zs ! k) (?ys ! j) ! i"
      using that(1,2) len_row
      by (intro concat_map_nth) (simp_all add: ny_def length_range_list)
    also have "\<dots> = array_data a (cell (fst (t_ax ?r)) (?cs ! ch) (?xs ! i) (?ys ! j) (?zs ! k))"
      using that(1) by (simp add: nx_def length_range_list)
    also have "\<dots> = array_data a (cell (fst (t_ax ?r)) (fst (c_ax ?r) + int ch)
                        (fst (x_ax ?r) + int i) (fst (y_ax ?r) + int j) (fst (z_ax ?r) + int k))"
      using that by (simp add: nx_def ny_def nz_def nc_def nth_range_list)
    finally show ?thesis
      unfolding idx .
  qed
  have "length ?body = nx * ny * nz * nc"
    using len_body by (simp add: mult_ac)
  then show ?thesis
    using body at by blast
qed


lemma resolve_axis_inside:
  "0 \<le> start \<Longrightarrow> start \<le> stop \<Longrightarrow> stop \<le> ext \<Longrightarrow>
     resolve_axis ext (Some (start, stop)) = (start, stop)"
  by (simp add: resolve_axis_def Let_def)

text \<open>
  C7, as amended. For every raw-chunk request \<^verbatim>\<open>xBegin-xEnd_yBegin-yEnd_zBegin-zEnd\<close> whose
  ranges lie within the data source (\<open>0 \<le> xBegin \<le> xEnd\<close> up to its extent in x, and
  likewise in y and z), against a classifier that emits \<open>C\<close> channels, the body has exactly
  \<open>(xEnd - xBegin) * (yEnd - yBegin) * (zEnd - zBegin) * C\<close> bytes, and the byte at position
  \<open>i + nx * (j + ny * (k + nz * ch))\<close> is the eight-bit value of the buffer's cell
  \<open>(xBegin + i, yBegin + j, zBegin + k)\<close> of channel \<open>ch\<close>: x varies fastest, then y, then z,
  then the channel.
\<close>

theorem raw_chunk_layout:
  assumes registry: "objects classifier_id = Some classifier"
      "objects datasource_id = Some datasource"
    and source: "shape cap datasource = Inr sh" "tile_shape cap datasource = Inr tshape"
    and x_range: "0 \<le> xBegin" "xBegin \<le> xEnd" "xEnd \<le> x_ax sh"
    and y_range: "0 \<le> yBegin" "yBegin \<le> yEnd" "yEnd \<le> y_ax sh"
    and z_range: "0 \<le> zBegin" "zBegin \<le> zEnd" "zEnd \<le> z_ax sh"
    and channels: "0 \<le> C" "\<forall>r. expected_roi cap classifier r = Inr (r\<lparr>c_ax := (0, C)\<rparr>)"
  shows "\<exists>body buffer.
           ng_predict cap schedule classifier_id datasource_id
               xBegin xEnd yBegin yEnd zBegin zEnd objects = Inr body
           \<and> do_predictions cap schedule
                 \<lparr>t_ax = None, c_ax = None, x_ax = Some (xBegin, xEnd),
                  y_ax = Some (yBegin, yEnd), z_ax = Some (zBegin, zEnd)\<rparr>
                 classifier_id datasource_id objects = Inr buffer
           \<and> int (length body) = (xEnd - xBegin) * (yEnd - yBegin) * (zEnd - zBegin) * C
           \<and> (\<forall>i j k ch. i < nat (xEnd - xBegin) \<longrightarrow> j < nat (yEnd - yBegin) \<longrightarrow>
                 k < nat (zEnd - zBegin) \<longrightarrow> ch < nat C \<longrightarrow>
                 body ! (i + nat (xEnd - xBegin) * (j + nat (yEnd - yBegin)
                              * (k + nat (zEnd - zBegin) * ch)))
                   = as_uint8 cap (array_data buffer
                       (cell 0 (int ch) (xBegin + int i) (yBegin + int j) (zBegin + int k))))"
proof -
  let ?slc = "\<lparr>t_ax = None, c_ax = None, x_ax = Some (xBegin, xEnd),
               y_ax = Some (yBegin, yEnd), z_ax = Some (zBegin, zEnd)\<rparr>"
  let ?r = "resolve ?slc sh"
  let ?start = "\<lparr>array_roi = ?r\<lparr>c_ax := (0, C)\<rparr>, array_data = (\<lambda>p. blank cap),
                 array_writes = (\<lambda>p. 0)\<rparr>"
  let ?buffer = "run_tasks cap classifier datasource (schedule (tile_grid ?r tshape)) ?start"
  let ?bytes = "map_array (as_uint8 cap) ?buffer"
  have ret: "do_predictions cap schedule ?slc classifier_id datasource_id objects = Inr ?buffer"
    using registry source channels(2)
    by (simp add: do_predictions_def load_def defined_def allocate_predictions_def get_tiles_def)
  have roi: "array_roi ?bytes = ?r\<lparr>c_ax := (0, C)\<rparr>"
    by (simp add: map_array_def run_tasks_roi)
  have t: "fst (t_ax (array_roi ?bytes)) = 0"
    unfolding roi by (simp add: resolve_def resolve_axis_def)
  have c: "c_ax (array_roi ?bytes) = (0, C)"
    unfolding roi by simp
  have x: "x_ax (array_roi ?bytes) = (xBegin, xEnd)"
    unfolding roi using x_range by (simp add: resolve_def resolve_axis_inside)
  have y: "y_ax (array_roi ?bytes) = (yBegin, yEnd)"
    unfolding roi using y_range by (simp add: resolve_def resolve_axis_inside)
  have z: "z_ax (array_roi ?bytes) = (zBegin, zEnd)"
    unfolding roi using z_range by (simp add: resolve_def resolve_axis_inside)
  from raw_layout [of ?bytes] obtain body where body: "raw_xyzc_tobytes_F ?bytes = body"
    and len: "length body = nat (xEnd - xBegin) * nat (yEnd - yBegin) * nat (zEnd - zBegin) * nat C"
    and at: "\<And>i j k ch. i < nat (xEnd - xBegin) \<Longrightarrow> j < nat (yEnd - yBegin) \<Longrightarrow>
               k < nat (zEnd - zBegin) \<Longrightarrow> ch < nat C \<Longrightarrow>
               body ! (i + nat (xEnd - xBegin) * (j + nat (yEnd - yBegin)
                            * (k + nat (zEnd - zBegin) * ch)))
                 = array_data ?bytes
                     (cell 0 (0 + int ch) (xBegin + int i) (yBegin + int j) (zBegin + int k))"
    unfolding t c x y z by (auto simp add: extent_def)
  have route: "ng_predict cap schedule classifier_id datasource_id
                 xBegin xEnd yBegin yEnd zBegin zEnd objects = Inr body"
    using ret body by (simp add: ng_predict_def)
  have size: "int (length body) = (xEnd - xBegin) * (yEnd - yBegin) * (zEnd - zBegin) * C"
    unfolding len using x_range(2) y_range(2) z_range(2) channels(1) by simp
  have bytes: "array_data ?bytes p = as_uint8 cap (array_data ?buffer p)" for p
    by (simp add: map_array_def)
  show ?thesis
    using route ret size at unfolding bytes by (intro exI conjI) auto
qed

text \<open>
  The claim C7 as it was written speaks of every request. The request \<^verbatim>\<open>0-10_0-10_0-1\<close>
  against a classifier of two channels and a data source that is two cells wide and one
  cell high is answered from the part of the region that the data source has: the body
  has 4 bytes, not \<open>10 * 10 * 1 * 2 = 200\<close>. The request \<^verbatim>\<open>5-0_5-0_0-1\<close> against the same
  classifier and a data source of ten by ten cells lies within the data source, but its
  ranges end before they begin: the region is empty and the body has no byte, not
  \<open>(0 - 5) * (0 - 5) * 1 * 2 = 50\<close>.
\<close>

theorem raw_chunk_counterexample:
  "\<not> isl (ng_predict sample_capabilities id ''pointer@rf'' ''pointer@ds'' 0 10 0 10 0 1
             sample_objects)
   \<and> length (projr (ng_predict sample_capabilities id ''pointer@rf'' ''pointer@ds''
        0 10 0 10 0 1 sample_objects)) = 4
   \<and> int (length (projr (ng_predict sample_capabilities id ''pointer@rf'' ''pointer@ds''
        0 10 0 10 0 1 sample_objects))) \<noteq> (10 - 0) * (10 - 0) * (1 - 0) * 2
   \<and> \<not> isl (ng_predict sample_capabilities id ''pointer@rf'' ''pointer@slab'' 5 0 5 0 0 1
             slab_objects)
   \<and> length (projr (ng_predict sample_capabilities id ''pointer@rf'' ''pointer@slab''
        5 0 5 0 0 1 slab_objects)) = 0
   \<and> int (length (projr (ng_predict sample_capabilities id ''pointer@rf'' ''pointer@slab''
        5 0 5 0 0 1 slab_objects))) \<noteq> (0 - 5) * (0 - 5) * (1 - 0) * 2"
  by code_simp

theorem raw_chunk_layout_witness:
  "slab_objects ''pointer@rf'' = Some (Forest 2)
   \<and> slab_objects ''pointer@slab'' = Some (Volume slab slab_tile)
   \<and> shape sample_capabilities (Volume slab slab_tile) = Inr slab
   \<and> tile_shape sample_capabilities (Volume slab slab_tile) = Inr slab_tile
   \<and> (0::int) \<le> 0 \<and> (0::int) \<le> 10 \<and> 10 \<le> x_ax slab \<and> 10 \<le> y_ax slab
   \<and> (0::int) \<le> 1 \<and> 1 \<le> z_ax slab \<and> (0::int) \<le> 2
   \<and> expected_roi sample_capabilities (Forest 2) (full_roi slab)
        = Inr ((full_roi slab)\<lparr>c_ax := (0, 2)\<rparr>)
   \<and> (\<exists>body. ng_predict sample_capabilities rev ''pointer@rf'' ''pointer@slab'' 0 10 0 10 0 1
                  slab_objects = Inr body
         \<and> int (length body) = 200)"
proof -
  have a: "slab_objects ''pointer@rf'' = Some (Forest 2)"
    and b: "slab_objects ''pointer@slab'' = Some (Volume slab slab_tile)"
    by (simp_all add: slab_objects_def)
  have c: "shape sample_capabilities (Volume slab slab_tile) = Inr slab"
    and d: "tile_shape sample_capabilities (Volume slab slab_tile) = Inr slab_tile"
    by (simp_all add: sample_capabilities_def)
  have f: "10 \<le> x_ax slab" and g: "10 \<le> y_ax slab" and h: "1 \<le> z_ax slab"
    by (simp_all add: slab_def)
  have i: "\<forall>r. expected_roi sample_capabilities (Forest 2) r = Inr (r\<lparr>c_ax := (0, 2)\<rparr>)"
    by (simp add: expected_roi_def sample_capabilities_def)
  have z00: "(0::int) \<le> 0" and z010: "(0::int) \<le> 10" and z01: "(0::int) \<le> 1"
    and z02: "(0::int) \<le> 2"
    by simp_all
  note r = raw_chunk_layout [of slab_objects "''pointer@rf''" "Forest 2" "''pointer@slab''"
      "Volume slab slab_tile" sample_capabilities slab slab_tile 0 10 0 10 0 1 2 rev,
      OF a b c d z00 z010 f z00 z010 g z00 z01 h z02 i]
  then obtain body where
    route: "ng_predict sample_capabilities rev ''pointer@rf'' ''pointer@slab'' 0 10 0 10 0 1
              slab_objects = Inr body"
    and len: "int (length body) = (10 - 0) * (10 - 0) * (1 - 0) * 2"
    by blast
  have "int (length body) = 200"
    using len by simp
  then show ?thesis
    using a b c d f g h i route by (auto simp add: full_roi_def)
qed

end
